theory Spec2Isabelle
  imports Main
begin

section \<open>Python values and exceptions\<close>

text \<open>
  The documents handled by \<^verbatim>\<open>httprunner/make.py\<close> are JSON/YAML trees. A Python
  \<^verbatim>\<open>dict\<close> is an association list in insertion order with unique keys, a Python
  \<^verbatim>\<open>str\<close> is a \<^typ>\<open>string\<close> (7-bit text; bytes above 127 stand for the UTF-8
  encoding of printable characters). Floats are left out.
\<close>

datatype pyval =
    PNone
  | PBool bool
  | PInt int
  | PStr string
  | PList "pyval list"
  | PDict "(string \<times> pyval) list"

type_synonym pydict = "(string \<times> pyval) list"

text \<open>
  Exceptions of \<^verbatim>\<open>httprunner.exceptions\<close> that the module raises or catches, the
  built-in exceptions that its subscripts and method calls can raise, and \<open>OtherError\<close>
  for anything else coming out of a collaborator.
\<close>

datatype error =
    ParamsError string
  | TestCaseFormatError string
  | TestSuiteFormatError string
  | FileNotFound string
  | FileFormatError string
  | TestcaseNotFound string
  | IndexError
  | KeyError string
  | TypeError
  | AttributeError
  | RecursionError
  | OSError string
  | OtherError string

definition ebind :: "error + 'a \<Rightarrow> ('a \<Rightarrow> error + 'b) \<Rightarrow> error + 'b" where
  "ebind m f = (case m of Inl e \<Rightarrow> Inl e | Inr x \<Rightarrow> f x)"

subsection \<open>Dictionaries\<close>

text \<open>\<^verbatim>\<open>d[k] = v\<close>: replace in place, or append a new key.\<close>

fun dict_set :: "pydict \<Rightarrow> string \<Rightarrow> pyval \<Rightarrow> pydict" where
  "dict_set [] k v = [(k, v)]"
| "dict_set ((k', v') # d) k v = (if k' = k then (k, v) # d else (k', v') # dict_set d k v)"

text \<open>\<^verbatim>\<open>d.update(e)\<close>.\<close>

definition dict_update :: "pydict \<Rightarrow> pydict \<Rightarrow> pydict" where
  "dict_update d e = fold (\<lambda>(k, v) acc. dict_set acc k v) e d"

text \<open>\<^verbatim>\<open>d[k]\<close>, raising \<^verbatim>\<open>KeyError\<close>.\<close>

definition get_item :: "pydict \<Rightarrow> string \<Rightarrow> error + pyval" where
  "get_item d k = (case map_of d k of None \<Rightarrow> Inl (KeyError k) | Some v \<Rightarrow> Inr v)"

text \<open>\<^verbatim>\<open>d.get(k)\<close> and \<^verbatim>\<open>d.get(k, default)\<close>.\<close>

definition dict_get :: "pydict \<Rightarrow> string \<Rightarrow> pyval" where
  "dict_get d k = (case map_of d k of None \<Rightarrow> PNone | Some v \<Rightarrow> v)"

definition dict_get_default :: "pydict \<Rightarrow> string \<Rightarrow> pyval \<Rightarrow> pyval" where
  "dict_get_default d k dflt = (case map_of d k of None \<Rightarrow> dflt | Some v \<Rightarrow> v)"

text \<open>\<^verbatim>\<open>k in d\<close>.\<close>

definition has_key :: "pydict \<Rightarrow> string \<Rightarrow> bool" where
  "has_key d k = (map_of d k \<noteq> None)"

text \<open>\<^verbatim>\<open>d.setdefault(k, v)\<close>, the dictionary afterwards.\<close>

definition setdefault :: "pydict \<Rightarrow> string \<Rightarrow> pyval \<Rightarrow> pydict" where
  "setdefault d k v = (if has_key d k then d else dict_set d k v)"

text \<open>Truth value testing.\<close>

fun truthy :: "pyval \<Rightarrow> bool" where
  "truthy PNone = False"
| "truthy (PBool b) = b"
| "truthy (PInt i) = (i \<noteq> 0)"
| "truthy (PStr s) = (s \<noteq> [])"
| "truthy (PList xs) = (xs \<noteq> [])"
| "truthy (PDict d) = (d \<noteq> [])"

text \<open>Subscripting and method calls on a value of the wrong type raise.\<close>

definition as_dict :: "pyval \<Rightarrow> error + pydict" where
  "as_dict v = (case v of PDict d \<Rightarrow> Inr d | _ \<Rightarrow> Inl TypeError)"

definition as_str :: "pyval \<Rightarrow> error + string" where
  "as_str v = (case v of PStr s \<Rightarrow> Inr s | _ \<Rightarrow> Inl TypeError)"

text \<open>Iteration (\<^verbatim>\<open>for x in v\<close>): a list gives its elements, a dict its keys, a string
  its characters; other values are not iterable.\<close>

definition py_iter :: "pyval \<Rightarrow> error + pyval list" where
  "py_iter v = (case v of
       PList xs \<Rightarrow> Inr xs
     | PDict d \<Rightarrow> Inr (map (\<lambda>kv. PStr (fst kv)) d)
     | PStr s \<Rightarrow> Inr (map (\<lambda>c. PStr [c]) s)
     | _ \<Rightarrow> Inl TypeError)"

subsection \<open>Strings\<close>

definition dq :: char where "dq = CHR 0x22"
definition sq :: char where "sq = CHR 0x27"
definition backslash :: char where "backslash = CHR 0x5C"

definition ascii_lowercase :: string where
  "ascii_lowercase = ''abcdefghijklmnopqrstuvwxyz''"

definition ascii_uppercase :: string where
  "ascii_uppercase = ''ABCDEFGHIJKLMNOPQRSTUVWXYZ''"

text \<open>\<^verbatim>\<open>string.digits\<close>.\<close>

definition digits :: string where
  "digits = ''0123456789''"

definition char_lower :: "char \<Rightarrow> char" where
  "char_lower c = (case map_of (zip ascii_uppercase ascii_lowercase) c of Some l \<Rightarrow> l | None \<Rightarrow> c)"

definition char_upper :: "char \<Rightarrow> char" where
  "char_upper c = (case map_of (zip ascii_lowercase ascii_uppercase) c of Some u \<Rightarrow> u | None \<Rightarrow> c)"

text \<open>\<^verbatim>\<open>s.lower()\<close>.\<close>

definition lower :: "string \<Rightarrow> string" where
  "lower s = map char_lower s"

text \<open>\<^verbatim>\<open>s.replace(a, b)\<close> for one-character \<open>a\<close> and \<open>b\<close>, and \<^verbatim>\<open>s.replace(a, "")\<close>.\<close>

definition replace_char :: "char \<Rightarrow> char \<Rightarrow> string \<Rightarrow> string" where
  "replace_char a b s = map (\<lambda>c. if c = a then b else c) s"

definition remove_char :: "char \<Rightarrow> string \<Rightarrow> string" where
  "remove_char a s = filter (\<lambda>c. c \<noteq> a) s"

text \<open>\<^verbatim>\<open>s.title()\<close>: a cased character is upper-cased after an uncased one and
  lower-cased after a cased one. The flag is \<^verbatim>\<open>previous_is_cased\<close>.\<close>

fun title_from :: "bool \<Rightarrow> string \<Rightarrow> string" where
  "title_from prev [] = []"
| "title_from prev (c # cs) =
     (if c \<in> set ascii_lowercase then (if prev then c else char_upper c) # title_from True cs
      else if c \<in> set ascii_uppercase then (if prev then char_lower c else c) # title_from True cs
      else c # title_from False cs)"

definition title :: "string \<Rightarrow> string" where
  "title s = title_from False s"

text \<open>\<^verbatim>\<open>s.endswith(suffix)\<close>.\<close>

definition endswith :: "string \<Rightarrow> string \<Rightarrow> bool" where
  "endswith s suffix = (length suffix \<le> length s \<and> drop (length s - length suffix) s = suffix)"

text \<open>\<^verbatim>\<open>sep.join(xs)\<close>.\<close>

fun join_str :: "string \<Rightarrow> string list \<Rightarrow> string" where
  "join_str sep [] = []"
| "join_str sep [x] = x"
| "join_str sep (x # y # ys) = x @ sep @ join_str sep (y # ys)"

subsection \<open>Text of a value\<close>

text \<open>\<^verbatim>\<open>str(n)\<close> of an integer.\<close>

fun str_nat :: "nat \<Rightarrow> string" where
  "str_nat n = (if n < 10 then [digits ! n] else str_nat (n div 10) @ [digits ! (n mod 10)])"

declare str_nat.simps [simp del]

definition str_int :: "int \<Rightarrow> string" where
  "str_int i = (if i < 0 then CHR ''-'' # str_nat (nat (- i)) else str_nat (nat i))"

definition hex_digit :: "nat \<Rightarrow> char" where
  "hex_digit n = ''0123456789abcdef'' ! n"

text \<open>\<^verbatim>\<open>repr(s)\<close> of a string: single quotes unless the text has a single quote and no
  double quote; the quote, the backslash and control characters are escaped.\<close>

definition repr_char :: "char \<Rightarrow> char \<Rightarrow> string" where
  "repr_char q c =
     (if c = backslash then [backslash, backslash]
      else if c = q then [backslash, q]
      else if c = CHR 0x09 then [backslash, CHR ''t'']
      else if c = CHR 0x0A then [backslash, CHR ''n'']
      else if c = CHR 0x0D then [backslash, CHR ''r'']
      else if (of_char c :: nat) < 32 \<or> c = CHR 0x7F
        then [backslash, CHR ''x'', hex_digit ((of_char c :: nat) div 16), hex_digit ((of_char c :: nat) mod 16)]
      else [c])"

definition repr_str :: "string \<Rightarrow> string" where
  "repr_str s =
     (let q = (if sq \<in> set s \<and> dq \<notin> set s then dq else sq)
      in q # concat (map (repr_char q) s) @ [q])"

text \<open>\<^verbatim>\<open>repr(v)\<close>.\<close>

fun py_repr :: "pyval \<Rightarrow> string" where
  "py_repr PNone = ''None''"
| "py_repr (PBool b) = (if b then ''True'' else ''False'')"
| "py_repr (PInt i) = str_int i"
| "py_repr (PStr s) = repr_str s"
| "py_repr (PList xs) = ''['' @ join_str '', '' (map py_repr xs) @ '']''"
| "py_repr (PDict d) =
     ''{'' @ join_str '', '' (map (\<lambda>(k, v). repr_str k @ '': '' @ py_repr v) d) @ ''}''"

text \<open>\<^verbatim>\<open>str(v)\<close>, which is what an f-string field \<^verbatim>\<open>{v}\<close> and a template field
  \<^verbatim>\<open>{{ v }}\<close> render.\<close>

definition py_str :: "pyval \<Rightarrow> string" where
  "py_str v = (case v of PStr s \<Rightarrow> s | _ \<Rightarrow> py_repr v)"

text \<open>\<^verbatim>\<open>'"' in v\<close>: substring test on a string, membership on a list, key test on a
  dict; \<^verbatim>\<open>TypeError\<close> on anything else.\<close>

definition contains_dq :: "pyval \<Rightarrow> error + bool" where
  "contains_dq v = (case v of
       PStr s \<Rightarrow> Inr (dq \<in> set s)
     | PList xs \<Rightarrow> Inr (PStr [dq] \<in> set xs)
     | PDict d \<Rightarrow> Inr (has_key d [dq])
     | _ \<Rightarrow> Inl TypeError)"

section \<open>Paths (\<^verbatim>\<open>os.path\<close> on POSIX)\<close>

text \<open>The part of \<open>s\<close> after the last \<open>c\<close> (all of \<open>s\<close> when there is none), and the
  part up to and including the last \<open>c\<close> (empty when there is none): the two slices
  around \<^verbatim>\<open>s.rfind(c) + 1\<close>.\<close>

fun after_last :: "char \<Rightarrow> string \<Rightarrow> string" where
  "after_last c [] = []"
| "after_last c (x # xs) =
     (if c \<in> set xs then after_last c xs else if x = c then xs else x # xs)"

fun upto_last :: "char \<Rightarrow> string \<Rightarrow> string" where
  "upto_last c [] = []"
| "upto_last c (x # xs) =
     (if c \<in> set xs then x # upto_last c xs else if x = c then [x] else [])"

text \<open>\<^verbatim>\<open>s.rstrip(c)\<close>.\<close>

definition rstrip :: "char \<Rightarrow> string \<Rightarrow> string" where
  "rstrip c s = rev (dropWhile (\<lambda>x. x = c) (rev s))"

definition isabs :: "string \<Rightarrow> bool" where
  "isabs p = (case p of [] \<Rightarrow> False | c # _ \<Rightarrow> c = CHR ''/'')"

definition basename :: "string \<Rightarrow> string" where
  "basename p = after_last CHR ''/'' p"

definition dirname :: "string \<Rightarrow> string" where
  "dirname p =
     (let head = upto_last CHR ''/'' p
      in if head \<noteq> [] \<and> (\<exists>c \<in> set head. c \<noteq> CHR ''/'') then rstrip CHR ''/'' head else head)"

text \<open>\<^verbatim>\<open>os.path.join(a, b)\<close>.\<close>

definition join :: "string \<Rightarrow> string \<Rightarrow> string" where
  "join a b =
     (if isabs b then b
      else if a = [] \<or> last a = CHR ''/'' then a @ b
      else a @ ''/'' @ b)"

text \<open>\<^verbatim>\<open>os.path.splitext(p)\<close>: the extension starts at the last dot of the last path
  component, unless only dots precede it there.\<close>

definition splitext :: "string \<Rightarrow> string \<times> string" where
  "splitext p =
     (let b = after_last CHR ''/'' p;
          d = upto_last CHR ''/'' p;
          r = upto_last CHR ''.'' b
      in if r \<noteq> [] \<and> (\<exists>c \<in> set (butlast r). c \<noteq> CHR ''.'')
         then (d @ butlast r, CHR ''.'' # after_last CHR ''.'' b)
         else (p, []))"

section \<open>Process state and collaborators\<close>

text \<open>
  The two module-level sets \<^verbatim>\<open>make_files_cache_set\<close> and \<^verbatim>\<open>pytest_files_set\<close>, the file
  system, the log and the exceptions handed to \<^verbatim>\<open>capture_exception\<close>. A Python set is kept
  as a duplicate-free list in insertion order (Python leaves the order of
  \<^verbatim>\<open>list(a_set)\<close> open; nothing below depends on it). The file system is addressed by
  the path strings the program uses: \<open>files\<close> maps a regular file to its content,
  \<open>dirs\<close> holds the directories, \<open>writes\<close> records every \<^verbatim>\<open>open(path, "w")\<close> in order.
\<close>

datatype log_level = INFO | WARNING | ERROR

record state =
  make_files_cache_set :: "string list"
  pytest_files_set :: "string list"
  files :: "string \<Rightarrow> string option"
  dirs :: "string set"
  writes :: "string list"
  logged :: "(log_level \<times> string) list"
  captured :: "error list"

text \<open>What running an external program gives: it exits with a status, or it cannot be
  started (\<^verbatim>\<open>subprocess.run\<close> then raises an \<^verbatim>\<open>OSError\<close> such as
  \<^verbatim>\<open>FileNotFoundError\<close>).\<close>

datatype proc_outcome = Exited int | NotStarted string

text \<open>
  The collaborators that \<^verbatim>\<open>make.py\<close> imports (\<^verbatim>\<open>httprunner.loader\<close>,
  \<^verbatim>\<open>httprunner.compat\<close>, \<^verbatim>\<open>httprunner.parser\<close>, \<^verbatim>\<open>httprunner.response\<close>,
  \<^verbatim>\<open>httprunner.__version__\<close>) and the process environment are parameters.
  \<open>project_PWD p\<close> is \<^verbatim>\<open>load_project_meta(p).PWD\<close>; \<open>parse_data e p\<close> is
  \<^verbatim>\<open>parse_data(e, {}, load_project_meta(p).functions)\<close>; the loaders read the files of
  the current state.
\<close>

record env =
  getcwd :: string
  version :: string
  project_PWD :: "string \<Rightarrow> string"
  load_folder_files :: "(string \<Rightarrow> string option) \<Rightarrow> string \<Rightarrow> string list"
  load_test_file :: "(string \<Rightarrow> string option) \<Rightarrow> string \<Rightarrow> error + pydict"
  ensure_testcase_v3 :: "pydict \<Rightarrow> error + pydict"
  ensure_testcase_v3_api :: "pydict \<Rightarrow> error + pydict"
  load_testcase :: "pydict \<Rightarrow> error + unit"
  load_testsuite :: "pydict \<Rightarrow> error + unit"
  parse_data :: "string \<Rightarrow> string \<Rightarrow> error + pyval"
  uniform_validator :: "pyval \<Rightarrow> error + pydict"
  run_process :: "string list \<Rightarrow> proc_outcome"

text \<open>A statement sequence: it runs on a state and gives an exception or a value,
  together with the state it leaves (an exception keeps the effects made before it).\<close>

type_synonym 'a prog = "state \<Rightarrow> (error + 'a) \<times> state"

definition pret :: "'a \<Rightarrow> 'a prog" where
  "pret x s = (Inr x, s)"

definition praise :: "error \<Rightarrow> 'a prog" where
  "praise e s = (Inl e, s)"

definition plift :: "error + 'a \<Rightarrow> 'a prog" where
  "plift r s = (r, s)"

definition pbind :: "'a prog \<Rightarrow> ('a \<Rightarrow> 'b prog) \<Rightarrow> 'b prog" where
  "pbind m f s = (case m s of (Inl e, s') \<Rightarrow> (Inl e, s') | (Inr x, s') \<Rightarrow> f x s')"

text \<open>\<^verbatim>\<open>try: m except <the errors h accepts>: h e\<close>.\<close>

definition pcatch :: "'a prog \<Rightarrow> (error \<Rightarrow> 'a prog option) \<Rightarrow> 'a prog" where
  "pcatch m h s =
     (case m s of
        (Inl e, s') \<Rightarrow> (case h e of Some k \<Rightarrow> k s' | None \<Rightarrow> (Inl e, s'))
      | (Inr x, s') \<Rightarrow> (Inr x, s'))"

text \<open>All results of a list of fallible computations, or the first exception.\<close>

fun emap :: "('a \<Rightarrow> error + 'b) \<Rightarrow> 'a list \<Rightarrow> error + 'b list" where
  "emap f [] = Inr []"
| "emap f (x # xs) = ebind (f x) (\<lambda>y. ebind (emap f xs) (\<lambda>ys. Inr (y # ys)))"

definition logger :: "log_level \<Rightarrow> string \<Rightarrow> unit prog" where
  "logger lvl msg s = (Inr (), s\<lparr>logged := logged s @ [(lvl, msg)]\<rparr>)"

text \<open>\<^verbatim>\<open>sentry_sdk.capture_exception\<close>.\<close>

definition capture_exception :: "error \<Rightarrow> unit prog" where
  "capture_exception e s = (Inr (), s\<lparr>captured := captured s @ [e]\<rparr>)"

text \<open>\<^verbatim>\<open>a_set.add(x)\<close>.\<close>

definition set_add :: "string \<Rightarrow> string list \<Rightarrow> string list" where
  "set_add x xs = (if x \<in> set xs then xs else xs @ [x])"

text \<open>The text of an exception, as \<^verbatim>\<open>logger.warning(ex)\<close> prints it.\<close>

fun error_text :: "error \<Rightarrow> string" where
  "error_text (ParamsError m) = m"
| "error_text (TestCaseFormatError m) = m"
| "error_text (TestSuiteFormatError m) = m"
| "error_text (FileNotFound m) = m"
| "error_text (FileFormatError m) = m"
| "error_text (TestcaseNotFound m) = m"
| "error_text IndexError = ''string index out of range''"
| "error_text (KeyError k) = repr_str k"
| "error_text TypeError = ''TypeError''"
| "error_text AttributeError = ''AttributeError''"
| "error_text RecursionError = ''maximum recursion depth exceeded''"
| "error_text (OSError m) = m"
| "error_text (OtherError m) = m"

subsection \<open>File system operations\<close>

definition isdir :: "state \<Rightarrow> string \<Rightarrow> bool" where
  "isdir s p = (p \<in> dirs s)"

definition isfile :: "state \<Rightarrow> string \<Rightarrow> bool" where
  "isfile s p = (files s p \<noteq> None)"

text \<open>\<^verbatim>\<open>with open(p, "w") as f: f.write(content)\<close>. Opening fails on a directory and
  where the containing directory is missing.\<close>

definition write_file :: "string \<Rightarrow> string \<Rightarrow> unit prog" where
  "write_file p content s =
     (if isdir s p then (Inl (OSError ''IsADirectoryError''), s)
      else if dirname p \<noteq> [] \<and> \<not> isdir s (dirname p) then (Inl (OSError ''FileNotFoundError''), s)
      else (Inr (), s\<lparr>files := (files s)(p \<mapsto> content), writes := writes s @ [p]\<rparr>))"

text \<open>The directories above \<open>p\<close>, nearest first.\<close>

fun parents :: "nat \<Rightarrow> string \<Rightarrow> string list" where
  "parents 0 p = []"
| "parents (Suc n) p =
     (let h = dirname p in if h = p \<or> h = [] then [] else h # parents n h)"

text \<open>\<^verbatim>\<open>os.makedirs(d, exist_ok=True)\<close>: creates \<open>d\<close> and the missing directories above
  it; fails where one of them is a regular file.\<close>

definition makedirs :: "string \<Rightarrow> unit prog" where
  "makedirs d s =
     (if d = [] then (Inl (OSError ''FileNotFoundError''), s)
      else if \<exists>p \<in> set (d # parents (length d) d). isfile s p then (Inl (OSError ''FileExistsError''), s)
      else (Inr (), s\<lparr>dirs := dirs s \<union> set (d # parents (length d) d)\<rparr>))"

section \<open>\<^verbatim>\<open>httprunner/make.py\<close>: paths\<close>

text \<open>\<^verbatim>\<open>__ensure_file_name\<close> (lines 57-65). \<^verbatim>\<open>filename[0]\<close> raises \<^verbatim>\<open>IndexError\<close> on an
  empty base name.\<close>

definition ensure_file_name :: "string \<Rightarrow> error + string" where
  "ensure_file_name path =
     (let filename = basename path
      in case filename of
           [] \<Rightarrow> Inl IndexError
         | c # _ \<Rightarrow>
             if c \<in> set digits then Inr (join (dirname path) (CHR ''T'' # filename))
             else Inr path)"

text \<open>\<^verbatim>\<open>__ensure_absolute\<close> (lines 68-76).\<close>

definition ensure_absolute :: "env \<Rightarrow> pyval \<Rightarrow> error + string" where
  "ensure_absolute env path =
     ebind (as_str path) (\<lambda>p.
       if isabs p then Inr p else Inr (join (project_PWD env p) p))"

text \<open>\<^verbatim>\<open>__ensure_cwd_relative\<close> (lines 79-91): \<^verbatim>\<open>path[len(os.getcwd()) + 1 :]\<close>.\<close>

definition ensure_cwd_relative :: "env \<Rightarrow> string \<Rightarrow> string" where
  "ensure_cwd_relative env path =
     (if isabs path then drop (length (getcwd env) + 1) path else path)"

text \<open>\<^verbatim>\<open>__ensure_testcase_module\<close> (lines 94-102).\<close>

definition ensure_testcase_module :: "string \<Rightarrow> unit prog" where
  "ensure_testcase_module path =
     (let init_file = join (dirname path) ''__init__.py''
      in (\<lambda>s. if isfile s init_file then (Inr (), s)
              else write_file init_file ''# NOTICE: Generated By HttpRunner. DO NOT EDIT!\<newline>'' s))"

text \<open>\<^verbatim>\<open>convert_testcase_path\<close> (lines 105-127).\<close>

definition convert_testcase_path :: "state \<Rightarrow> string \<Rightarrow> error + (string \<times> string)" where
  "convert_testcase_path s testcase_path0 =
     (if isdir s testcase_path0 then Inr (testcase_path0, [])
      else
        ebind (ensure_file_name testcase_path0) (\<lambda>testcase_path.
          let (raw_file_name, file_suffix0) = splitext (basename testcase_path);
              file_suffix = lower file_suffix0
          in if file_suffix \<notin> set [''.json'', ''.yml'', ''.yaml'', ''.har'']
             then Inl (ParamsError ''testcase file should have .yaml/.yml/.json suffix'')
             else
               let file_name =
                     replace_char CHR ''-'' CHR ''_''
                       (replace_char CHR ''.'' CHR ''_''
                         (replace_char CHR '' '' CHR ''_'' raw_file_name));
                   testcase_dir = dirname testcase_path;
                   testcase_python_path = join testcase_dir (file_name @ ''_test.py'');
                   name_in_title_case = remove_char CHR ''_'' (title file_name)
               in Inr (testcase_python_path, name_in_title_case)))"

section \<open>\<^verbatim>\<open>httprunner/make.py\<close>: the formatter\<close>

text \<open>\<^verbatim>\<open>subprocess.run(args, check=...)\<close>: \<^verbatim>\<open>CalledProcessError\<close> is raised only when
  \<^verbatim>\<open>check\<close> is true and the status is not zero; a program that cannot be started
  raises an \<^verbatim>\<open>OSError\<close> whatever \<^verbatim>\<open>check\<close> is. The exception is kept apart from
  \<^typ>\<open>error\<close> values by its own result type.\<close>

datatype run_result = Completed int | CalledProcessError int | RunOSError string

definition subprocess_run :: "env \<Rightarrow> string list \<Rightarrow> bool \<Rightarrow> run_result" where
  "subprocess_run env args check =
     (case run_process env args of
        NotStarted m \<Rightarrow> RunOSError m
      | Exited rc \<Rightarrow> if check \<and> rc \<noteq> 0 then CalledProcessError rc else Completed rc)"

text \<open>\<^verbatim>\<open>format_pytest_with_black\<close> (lines 130-137): \<^verbatim>\<open>subprocess.run\<close> is called without
  \<^verbatim>\<open>check\<close>, which defaults to false; only \<^verbatim>\<open>CalledProcessError\<close> is handled.\<close>

definition format_pytest_with_black :: "env \<Rightarrow> string list \<Rightarrow> unit prog" where
  "format_pytest_with_black env python_paths =
     pbind (logger INFO ''format pytest cases with black ...'') (\<lambda>_.
       case subprocess_run env (''black'' # python_paths) False of
         Completed rc \<Rightarrow> pret ()
       | CalledProcessError rc \<Rightarrow>
           pbind (capture_exception (OtherError ''CalledProcessError'')) (\<lambda>_.
             logger ERROR ''CalledProcessError'')
       | RunOSError m \<Rightarrow> praise (OSError m))"

section \<open>\<^verbatim>\<open>httprunner/make.py\<close>: serialisation\<close>

text \<open>\<^verbatim>\<open>make_config_chain_style\<close> (lines 139-155).\<close>

definition make_config_chain_style :: "pydict \<Rightarrow> error + string" where
  \<open>make_config_chain_style config =
     ebind (get_item config ''name'') (\<lambda>name.
     ebind (get_item config ''variables'') (\<lambda>variables.
       let c1 = ''Config("'' @ py_str name @ ''")'';
           c2 = (if truthy variables then c1 @ ''.variables(**'' @ py_str variables @ '')'' else c1);
           c3 = (if has_key config ''base_url''
                 then c2 @ ''.base_url("'' @ py_str (dict_get config ''base_url'') @ ''")'' else c2);
           c4 = (if has_key config ''verify''
                 then c3 @ ''.verify('' @ py_str (dict_get config ''verify'') @ '')'' else c3);
           c5 = (if has_key config ''export''
                 then c4 @ ''.export(*'' @ py_str (dict_get config ''export'') @ '')'' else c4)
       in Inr c5))\<close>

text \<open>One optional field of a request: \<^verbatim>\<open>if key in request: chain += f"{call}({value})"\<close>.\<close>

definition opt_field :: "pydict \<Rightarrow> string \<Rightarrow> string \<Rightarrow> string \<Rightarrow> string" where
  "opt_field request key call chain =
     (if has_key request key then chain @ call @ py_str (dict_get request key) @ '')'' else chain)"

text \<open>\<^verbatim>\<open>make_request_chain_style\<close> (lines 158-201). A \<^verbatim>\<open>data\<close> value that is text is
  put in double quotes.\<close>

definition make_request_chain_style :: "pyval \<Rightarrow> error + string" where
  \<open>make_request_chain_style request0 =
     ebind (as_dict request0) (\<lambda>request.
     ebind (get_item request ''method'') (\<lambda>m.
     ebind (case m of PStr t \<Rightarrow> Inr (lower t) | _ \<Rightarrow> Inl AttributeError) (\<lambda>method.
     ebind (get_item request ''url'') (\<lambda>url.
       let r0 = ''.'' @ method @ ''("'' @ py_str url @ ''")'';
           r1 = opt_field request ''params'' ''.with_params(**'' r0;
           r2 = opt_field request ''headers'' ''.with_headers(**'' r1;
           r3 = opt_field request ''cookies'' ''.with_cookies(**'' r2;
           r4 = (if has_key request ''data''
                 then r3 @ ''.with_data('' @
                      (case dict_get request ''data'' of
                         PStr t \<Rightarrow> dq # t @ [dq]
                       | v \<Rightarrow> py_str v) @ '')''
                 else r3);
           r5 = opt_field request ''json'' ''.with_json('' r4;
           r6 = opt_field request ''timeout'' ''.set_timeout('' r5;
           r7 = opt_field request ''verify'' ''.set_verify('' r6;
           r8 = opt_field request ''allow_redirects'' ''.set_allow_redirects('' r7;
           r9 = opt_field request ''upload'' ''.upload(**'' r8
       in Inr r9))))\<close>

text \<open>The body of the loop over \<^verbatim>\<open>teststep["validate"]\<close> (lines 237-249): one validator,
  normalised by \<^verbatim>\<open>uniform_validator\<close>, as a chained assertion call.\<close>

definition make_validator_chain_style :: "env \<Rightarrow> pyval \<Rightarrow> error + string" where
  \<open>make_validator_chain_style env v =
     ebind (uniform_validator env v) (\<lambda>validator.
     ebind (get_item validator ''assert'') (\<lambda>assert_method.
     ebind (get_item validator ''check'') (\<lambda>check0.
     ebind (contains_dq check0) (\<lambda>has_dq.
       let check = (if has_dq then sq # py_str check0 @ [sq] else dq # py_str check0 @ [dq])
       in
     ebind (get_item validator ''expect'') (\<lambda>expect0.
       let expect = (case expect0 of PStr t \<Rightarrow> dq # t @ [dq] | w \<Rightarrow> py_str w)
       in Inr (''.assert_'' @ py_str assert_method @ ''('' @ check @ '', '' @ expect @ '')''))))))\<close>

text \<open>\<^verbatim>\<open>d.items()\<close> exists on a dict only.\<close>

definition py_items :: "pyval \<Rightarrow> error + pydict" where
  "py_items v = (case v of PDict d \<Rightarrow> Inr d | _ \<Rightarrow> Inl AttributeError)"

text \<open>\<^verbatim>\<open>make_teststep_chain_style\<close> (lines 204-251).\<close>

definition make_teststep_chain_style :: "env \<Rightarrow> pydict \<Rightarrow> error + string" where
  \<open>make_teststep_chain_style env teststep =
     ebind
       (if truthy (dict_get teststep ''request'') then
          ebind (get_item teststep ''name'') (\<lambda>n. Inr (''RunRequest("'' @ py_str n @ ''")''))
        else if truthy (dict_get teststep ''testcase'') then
          ebind (get_item teststep ''name'') (\<lambda>n. Inr (''RunTestCase("'' @ py_str n @ ''")''))
        else Inl (TestCaseFormatError (''Invalid teststep: '' @ py_repr (PDict teststep))))
     (\<lambda>i0.
       let i1 = (if has_key teststep ''variables''
                 then i0 @ ''.with_variables(**'' @ py_str (dict_get teststep ''variables'') @ '')''
                 else i0)
       in
     ebind
       (if truthy (dict_get teststep ''request'') then
          ebind (make_request_chain_style (dict_get teststep ''request'')) (\<lambda>r. Inr (i1 @ r))
        else if truthy (dict_get teststep ''testcase'') then
          Inr (i1 @ ''.call('' @ py_str (dict_get teststep ''testcase'') @ '')'')
        else Inr i1)
     (\<lambda>i2.
     ebind
       (if has_key teststep ''extract'' then
          ebind (py_items (dict_get teststep ''extract'')) (\<lambda>items.
            Inr (i2 @ ''.extract()'' @
                 concat (map (\<lambda>(extract_name, extract_path).
                     ''.with_jmespath("'' @ py_str extract_path @ ''", "'' @ extract_name @ ''")'') items)))
        else Inr i2)
     (\<lambda>i3.
       let i4 = (if has_key teststep ''export''
                 then i3 @ ''.export(*'' @ py_str (dict_get teststep ''export'') @ '')''
                 else i3)
       in
     ebind
       (if has_key teststep ''validate'' then
          ebind (py_iter (dict_get teststep ''validate'')) (\<lambda>vs.
          ebind (emap (make_validator_chain_style env) vs) (\<lambda>chains.
            Inr (i4 @ ''.validate()'' @ concat chains)))
        else Inr i4)
     (\<lambda>i5. Inr (''Step('' @ i5 @ '')'')))))\<close>

text \<open>Rendering \<^verbatim>\<open>__TEMPLATE__\<close> (lines 27-54): jinja2 keeps the line breaks around block
  tags and drops the single line break at the end of the template.\<close>

definition render_template ::
  "string \<Rightarrow> string \<Rightarrow> string \<Rightarrow> string list \<Rightarrow> string \<Rightarrow> string list \<Rightarrow> string" where
  \<open>render_template ver testcase_path class_name imports_list config_chain_style teststeps_chain_style =
     ''# NOTICE: Generated By HttpRunner v'' @ ver @ ''\<newline>'' @
     ''# FROM: '' @ testcase_path @ ''\<newline>'' @
     (if imports_list \<noteq> []
      then ''\<newline>import os\<newline>import sys\<newline>\<newline>sys.path.insert(0, os.getcwd())\<newline>''
      else []) @
     ''\<newline>from httprunner import HttpRunner, Config, Step, RunRequest, RunTestCase\<newline>'' @
     concat (map (\<lambda>import_str. ''\<newline>'' @ import_str @ ''\<newline>'') imports_list) @
     ''\<newline>\<newline>class '' @ class_name @ ''(HttpRunner):\<newline>'' @
     ''    config = '' @ config_chain_style @ ''\<newline>\<newline>'' @
     ''    teststeps = [\<newline>        '' @
     concat (map (\<lambda>step_chain_style.
         ''\<newline>            '' @ step_chain_style @ '',\<newline>        '') teststeps_chain_style) @
     ''\<newline>    ]\<newline>\<newline>if __name__ == "__main__":\<newline>    '' @
     class_name @ ''().test_start()\<newline>''\<close>

section \<open>\<^verbatim>\<open>httprunner/make.py\<close>: generation\<close>

text \<open>
  \<^verbatim>\<open>make_testcase\<close>, \<^verbatim>\<open>make_testsuite\<close> and \<^verbatim>\<open>__make\<close> call each other. The only
  call that can go round for ever is \<^verbatim>\<open>__make(ref_testcase_path, ref_flag=True)\<close> in
  \<^verbatim>\<open>make_testcase\<close> (line 298), along a cycle of references. The functions below take
  that callee as the parameter \<open>make_rec\<close>; \<open>make\<close>, further down, ties the knot with a
  bound on the nesting depth, beyond which it raises \<^verbatim>\<open>RecursionError\<close> as the
  interpreter does.
\<close>

text \<open>\<^verbatim>\<open>teststep.get(...)\<close> needs a dict.\<close>

definition as_dict_attr :: "pyval \<Rightarrow> error + pydict" where
  "as_dict_attr v = (case v of PDict d \<Rightarrow> Inr d | _ \<Rightarrow> Inl AttributeError)"

text \<open>The loop over the teststeps that prepares the referenced testcases (lines 290-312).
  It gives the import lines and the teststeps, where the \<^verbatim>\<open>testcase\<close> field of a
  reference step now holds the class name.\<close>

fun make_refs ::
  "(string \<Rightarrow> bool \<Rightarrow> unit prog) \<Rightarrow> env \<Rightarrow> pyval list \<Rightarrow> (string list \<times> pydict list) prog" where
  "make_refs make_rec env [] = pret ([], [])"
| "make_refs make_rec env (teststep0 # rest) =
     pbind (plift (as_dict_attr teststep0)) (\<lambda>teststep.
       if \<not> truthy (dict_get teststep ''testcase'') then
         pbind (make_refs make_rec env rest) (\<lambda>(imports_list, teststeps).
           pret (imports_list, teststep # teststeps))
       else
         pbind (plift (ensure_absolute env (dict_get teststep ''testcase''))) (\<lambda>ref_testcase_path.
         pbind (make_rec ref_testcase_path True) (\<lambda>_.
         pbind (\<lambda>s. (convert_testcase_path s ref_testcase_path, s))
           (\<lambda>(ref_testcase_python_path0, ref_testcase_cls_name).
             let teststep' = dict_set teststep ''testcase'' (PStr ref_testcase_cls_name);
                 ref_testcase_python_path = drop (length (getcwd env) + 1) ref_testcase_python_path0;
                 ref_module_name =
                   replace_char CHR ''/'' CHR ''.'' (fst (splitext ref_testcase_python_path));
                 import_str = ''from '' @ ref_module_name @ '' import TestCase'' @
                   ref_testcase_cls_name @ '' as '' @ ref_testcase_cls_name
             in pbind (make_refs make_rec env rest) (\<lambda>(imports_list, teststeps).
                  pret (import_str # imports_list, teststep' # teststeps))))))"

text \<open>Parsing the config variables (lines 280-287).\<close>

definition parse_config_variables :: "env \<Rightarrow> string \<Rightarrow> pydict \<Rightarrow> error + pydict" where
  "parse_config_variables env testcase_path config0 =
     (let config = setdefault config0 ''variables'' (PDict [])
      in case dict_get config ''variables'' of
           PStr t \<Rightarrow> ebind (parse_data env t testcase_path) (\<lambda>v. Inr (dict_set config ''variables'' v))
         | _ \<Rightarrow> Inr config)"

text \<open>\<^verbatim>\<open>make_testcase\<close> (lines 254-336).\<close>

definition make_testcase ::
  "(string \<Rightarrow> bool \<Rightarrow> unit prog) \<Rightarrow> env \<Rightarrow> pydict \<Rightarrow> string option \<Rightarrow> bool \<Rightarrow> string prog" where
  "make_testcase make_rec env testcase0 dir_path ref_flag =
     pbind (plift (ensure_testcase_v3 env testcase0)) (\<lambda>testcase.
     pbind (plift (load_testcase env testcase)) (\<lambda>_.
     pbind (plift (ebind (get_item testcase ''config'') (\<lambda>c. ebind (as_dict c) (\<lambda>config0.
              ebind (get_item config0 ''path'') (\<lambda>path. ebind (ensure_absolute env path) (\<lambda>testcase_path.
                Inr (config0, testcase_path))))))) (\<lambda>(config0, testcase_path).
     pbind (logger INFO (''start to make testcase: '' @ testcase_path)) (\<lambda>_.
     pbind (\<lambda>s. (convert_testcase_path s testcase_path, s)) (\<lambda>(testcase_python_path0, testcase_cls_name).
       let testcase_python_path =
             (case dir_path of
                None \<Rightarrow> testcase_python_path0
              | Some d \<Rightarrow> if d = [] then testcase_python_path0
                         else join d (basename testcase_python_path0))
       in
     pbind (\<lambda>s. (Inr (testcase_python_path \<in> set (make_files_cache_set s)), s)) (\<lambda>cached.
       if cached then pret testcase_python_path
       else
         pbind (plift (parse_config_variables env testcase_path
                  (dict_set config0 ''path'' (PStr (ensure_cwd_relative env testcase_python_path))))) (\<lambda>config.
         pbind (plift (ebind (get_item testcase ''teststeps'') py_iter)) (\<lambda>teststeps0.
         pbind (make_refs make_rec env teststeps0) (\<lambda>(imports_list, teststeps).
         pbind (plift (make_config_chain_style config)) (\<lambda>config_chain_style.
         pbind (plift (emap (make_teststep_chain_style env) teststeps)) (\<lambda>teststeps_chain_style.
           let content = render_template (version env) (ensure_cwd_relative env testcase_path)
                 (''TestCase'' @ testcase_cls_name) imports_list config_chain_style teststeps_chain_style
           in
         pbind (write_file testcase_python_path content) (\<lambda>_.
         pbind (ensure_testcase_module testcase_python_path) (\<lambda>_.
         pbind (logger INFO (''generated testcase: '' @ testcase_python_path)) (\<lambda>_.
         pbind (\<lambda>s. if \<not> ref_flag
                     then (Inr (), s\<lparr>make_files_cache_set :=
                             set_add (ensure_cwd_relative env testcase_python_path) (make_files_cache_set s)\<rparr>)
                     else (Inr (), s)) (\<lambda>_.
           pret testcase_python_path)))))))))))))))"

text \<open>\<^verbatim>\<open>d.update(v)\<close> on a value \<open>d\<close>: \<open>d\<close> must be a dict (\<^verbatim>\<open>AttributeError\<close> otherwise).
  An argument that is not a dict is taken to raise, except the empty list and the empty
  string, which update nothing.\<close>

definition py_update :: "pyval \<Rightarrow> pyval \<Rightarrow> error + pyval" where
  "py_update d v =
     (case d of
        PDict d' \<Rightarrow>
          (case v of
             PDict e \<Rightarrow> Inr (PDict (dict_update d' e))
           | PList [] \<Rightarrow> Inr d
           | PStr [] \<Rightarrow> Inr d
           | _ \<Rightarrow> Inl TypeError)
      | _ \<Rightarrow> Inl AttributeError)"

text \<open>The overrides that \<^verbatim>\<open>make_testsuite\<close> applies to the config of a referenced
  testcase (lines 369-384): path, name, \<^verbatim>\<open>base_url\<close>, \<^verbatim>\<open>verify\<close>, then the variables of
  the reference entry and after them the variables of the suite.\<close>

definition override_config ::
  "pydict \<Rightarrow> pyval \<Rightarrow> pydict \<Rightarrow> string \<Rightarrow> pydict \<Rightarrow> error + pydict" where
  "override_config testsuite_config testsuite_variables testcase testcase_path testcase_dict0 =
     (let testcase_dict = setdefault testcase_dict0 ''config'' (PDict [])
      in
      ebind (as_dict (dict_get testcase_dict ''config'')) (\<lambda>c0.
        let c1 = dict_set c0 ''path'' (PStr testcase_path)
        in
      ebind (get_item testcase ''name'') (\<lambda>name.
        let c2 = dict_set c1 ''name'' name;
            base_url = (if truthy (dict_get testsuite_config ''base_url'')
                        then dict_get testsuite_config ''base_url''
                        else dict_get testcase ''base_url'');
            c3 = (if truthy base_url then dict_set c2 ''base_url'' base_url else c2);
            c4 = (if has_key testsuite_config ''verify''
                  then dict_set c3 ''verify'' (dict_get testsuite_config ''verify'') else c3);
            c5 = setdefault c4 ''variables'' (PDict [])
        in
      ebind (py_update (dict_get c5 ''variables'')
               (dict_get_default testcase ''variables'' (PDict []))) (\<lambda>v1.
      ebind (py_update v1 testsuite_variables) (\<lambda>v2.
        Inr (dict_set testcase_dict ''config'' (PDict (dict_set c5 ''variables'' v2))))))))"

text \<open>The loop over \<^verbatim>\<open>testsuite["testcases"]\<close> (lines 364-387).\<close>

fun make_testsuite_cases ::
  "(string \<Rightarrow> bool \<Rightarrow> unit prog) \<Rightarrow> env \<Rightarrow> pydict \<Rightarrow> pyval \<Rightarrow> string \<Rightarrow> pyval list \<Rightarrow> unit prog" where
  "make_testsuite_cases make_rec env testsuite_config testsuite_variables testsuite_dir [] = pret ()"
| "make_testsuite_cases make_rec env testsuite_config testsuite_variables testsuite_dir (testcase0 # rest) =
     pbind (plift (ebind (as_dict testcase0) (\<lambda>testcase.
              ebind (get_item testcase ''testcase'') (\<lambda>testcase_file.
              ebind (ensure_absolute env testcase_file) (\<lambda>testcase_path.
                Inr (testcase, testcase_path)))))) (\<lambda>(testcase, testcase_path).
     pbind (\<lambda>s. (load_test_file env (files s) testcase_path, s)) (\<lambda>testcase_dict0.
     pbind (plift (override_config testsuite_config testsuite_variables testcase testcase_path
              testcase_dict0)) (\<lambda>testcase_dict.
     pbind (make_testcase make_rec env testcase_dict (Some testsuite_dir) False) (\<lambda>_.
       make_testsuite_cases make_rec env testsuite_config testsuite_variables testsuite_dir rest))))"

text \<open>\<^verbatim>\<open>make_testsuite\<close> (lines 339-387).\<close>

definition make_testsuite ::
  "(string \<Rightarrow> bool \<Rightarrow> unit prog) \<Rightarrow> env \<Rightarrow> pydict \<Rightarrow> unit prog" where
  "make_testsuite make_rec env testsuite =
     pbind (plift (load_testsuite env testsuite)) (\<lambda>_.
     pbind (plift (ebind (get_item testsuite ''config'') (\<lambda>c. ebind (as_dict c) (\<lambda>testsuite_config.
              ebind (get_item testsuite_config ''path'') (\<lambda>testsuite_path.
                Inr (testsuite_config, testsuite_path)))))) (\<lambda>(testsuite_config, testsuite_path0).
     pbind (plift (case dict_get_default testsuite_config ''variables'' (PDict []) of
                     PStr t \<Rightarrow> ebind (as_str testsuite_path0) (parse_data env t)
                   | v \<Rightarrow> Inr v)) (\<lambda>testsuite_variables.
     pbind (logger INFO (''start to make testsuite: '' @ py_str testsuite_path0)) (\<lambda>_.
     pbind (plift (as_str testsuite_path0)) (\<lambda>testsuite_path.
       let testsuite_dir = join (dirname testsuite_path)
             (replace_char CHR ''.'' CHR ''_'' (basename testsuite_path))
       in
     pbind (makedirs testsuite_dir) (\<lambda>_.
     pbind (plift (ebind (get_item testsuite ''testcases'') py_iter)) (\<lambda>testcases.
       make_testsuite_cases make_rec env testsuite_config testsuite_variables testsuite_dir testcases)))))))"

text \<open>The body of the loop over \<^verbatim>\<open>test_files\<close> in \<^verbatim>\<open>__make\<close> (lines 408-441).\<close>

definition make_file ::
  "(string \<Rightarrow> bool \<Rightarrow> unit prog) \<Rightarrow> env \<Rightarrow> bool \<Rightarrow> string \<Rightarrow> unit prog" where
  "make_file make_rec env ref_flag test_file =
     (if endswith (lower test_file) ''_test.py'' then
        (\<lambda>s. (Inr (), s\<lparr>pytest_files_set := set_add test_file (pytest_files_set s)\<rparr>))
      else
        pbind
          (pcatch
             (pbind (\<lambda>s. (load_test_file env (files s) test_file, s)) (\<lambda>test_content. pret (Some test_content)))
             (\<lambda>ex. case ex of
                     FileNotFound m \<Rightarrow> Some (pbind (logger WARNING m) (\<lambda>_. pret None))
                   | FileFormatError m \<Rightarrow> Some (pbind (logger WARNING m) (\<lambda>_. pret None))
                   | _ \<Rightarrow> None))
          (\<lambda>loaded.
             case loaded of
               None \<Rightarrow> pret ()
             | Some test_content0 \<Rightarrow>
                 pbind (plift (if has_key test_content0 ''request''
                               then ensure_testcase_v3_api env test_content0
                               else Inr test_content0)) (\<lambda>test_content1.
                 pbind (plift (ebind (as_dict (dict_get (setdefault test_content1 ''config'' (PDict [])) ''config''))
                          (\<lambda>c. Inr (dict_set (setdefault test_content1 ''config'' (PDict [])) ''config''
                                      (PDict (dict_set c ''path'' (PStr test_file))))))) (\<lambda>test_content.
                   if has_key test_content ''teststeps'' then
                     pcatch (pbind (make_testcase make_rec env test_content None ref_flag) (\<lambda>_. pret ()))
                       (\<lambda>ex. case ex of TestCaseFormatError m \<Rightarrow> Some (pret ()) | _ \<Rightarrow> None)
                   else if has_key test_content ''testcases'' then
                     pcatch (make_testsuite make_rec env test_content)
                       (\<lambda>ex. case ex of TestSuiteFormatError m \<Rightarrow> Some (pret ()) | _ \<Rightarrow> None)
                   else
                     logger WARNING (''skip invalid testcase/testsuite file: '' @ test_file)))))"

text \<open>\<^verbatim>\<open>__make\<close> on one path, with the callee for references as a parameter
  (lines 390-441).\<close>

fun make_files ::
  "(string \<Rightarrow> bool \<Rightarrow> unit prog) \<Rightarrow> env \<Rightarrow> bool \<Rightarrow> string list \<Rightarrow> unit prog" where
  "make_files make_rec env ref_flag [] = pret ()"
| "make_files make_rec env ref_flag (test_file # rest) =
     pbind (make_file make_rec env ref_flag test_file) (\<lambda>_. make_files make_rec env ref_flag rest)"

definition make_body ::
  "(string \<Rightarrow> bool \<Rightarrow> unit prog) \<Rightarrow> env \<Rightarrow> string \<Rightarrow> bool \<Rightarrow> unit prog" where
  "make_body make_rec env tests_path ref_flag =
     pbind (\<lambda>s. if isdir s tests_path then (Inr (load_folder_files env (files s) tests_path), s)
                else if isfile s tests_path then (Inr [tests_path], s)
                else (Inl (TestcaseNotFound (''Invalid tests path: '' @ tests_path)), s))
       (\<lambda>test_files. make_files make_rec env ref_flag test_files)"

text \<open>\<^verbatim>\<open>__make\<close>: \<open>depth\<close> bounds how deep references may nest.\<close>

primrec make :: "nat \<Rightarrow> env \<Rightarrow> string \<Rightarrow> bool \<Rightarrow> unit prog" where
  "make 0 env tests_path ref_flag = praise RecursionError"
| "make (Suc depth) env tests_path ref_flag = make_body (make depth env) env tests_path ref_flag"

text \<open>The loop of \<^verbatim>\<open>main_make\<close> over its paths (lines 448-452).\<close>

fun main_make_paths :: "nat \<Rightarrow> env \<Rightarrow> string list \<Rightarrow> unit prog" where
  "main_make_paths depth env [] = pret ()"
| "main_make_paths depth env (tests_path0 # rest) =
     (let tests_path = (if \<not> isabs tests_path0 then join (getcwd env) tests_path0 else tests_path0)
      in pbind (make depth env tests_path False) (\<lambda>_. main_make_paths depth env rest))"

text \<open>\<^verbatim>\<open>main_make\<close> (lines 444-458).\<close>

definition main_make :: "nat \<Rightarrow> env \<Rightarrow> string list \<Rightarrow> string list prog" where
  "main_make depth env tests_paths =
     (if tests_paths = [] then pret []
      else
        pbind (main_make_paths depth env tests_paths) (\<lambda>_.
        pbind (\<lambda>s. (Inr (), s\<lparr>pytest_files_set :=
                       fold set_add (make_files_cache_set s) (pytest_files_set s)\<rparr>)) (\<lambda>_.
        pbind (\<lambda>s. (Inr (pytest_files_set s), s)) (\<lambda>pytest_files_list.
        pbind (format_pytest_with_black env pytest_files_list) (\<lambda>_.
          pret pytest_files_list)))))"

section \<open>A small project to run the definitions on\<close>

text \<open>
  A working directory \<^verbatim>\<open>/w\<close> with a testcase \<^verbatim>\<open>demo.yml\<close>, a folder \<^verbatim>\<open>cases\<close> with a
  testcase whose only step has neither \<^verbatim>\<open>request\<close> nor \<^verbatim>\<open>testcase\<close> (\<^verbatim>\<open>bad.yml\<close>) and a
  sound one (\<^verbatim>\<open>ok.yml\<close>), and a folder \<^verbatim>\<open>suites\<close> with a testsuite \<^verbatim>\<open>all.yml\<close> that refers
  to \<^verbatim>\<open>cases/bad.yml\<close>, and a sound testcase. The loader gives the documents below for the
  files that exist.
\<close>

definition demo_testcase :: pydict where
  "demo_testcase =
     [(''config'', PDict [(''name'', PStr ''demo''), (''path'', PStr ''/w/demo.yml'')]),
      (''teststeps'', PList [PDict [(''name'', PStr ''s1''),
         (''request'', PDict [(''method'', PStr ''GET''), (''url'', PStr ''/ping'')])]])]"

definition bad_testcase :: pydict where
  "bad_testcase =
     [(''config'', PDict [(''name'', PStr ''bad'')]),
      (''teststeps'', PList [PDict [(''name'', PStr ''s1'')]])]"

definition ok_testcase :: pydict where
  "ok_testcase =
     [(''config'', PDict [(''name'', PStr ''ok'')]),
      (''teststeps'', PList [PDict [(''name'', PStr ''s1''),
         (''request'', PDict [(''method'', PStr ''GET''), (''url'', PStr ''/ok'')])]])]"

definition all_testsuite :: pydict where
  "all_testsuite =
     [(''config'', PDict [(''name'', PStr ''all'')]),
      (''testcases'', PList [PDict [(''name'', PStr ''c1''),
         (''testcase'', PStr ''/w/cases/bad.yml'')]])]"

definition demo_documents :: "(string \<times> pydict) list" where
  "demo_documents =
     [(''/w/demo.yml'', demo_testcase),
      (''/w/cases/bad.yml'', bad_testcase),
      (''/w/cases/ok.yml'', ok_testcase),
      (''/w/suites/all.yml'', all_testsuite),
      (''/w/suites/ok.yml'', ok_testcase)]"

definition demo_env :: env where
  "demo_env =
     \<lparr>getcwd = ''/w'',
      version = ''3.0.0'',
      project_PWD = (\<lambda>p. ''/w''),
      load_folder_files = (\<lambda>fs d.
        if d = ''/w/cases'' then [''/w/cases/bad.yml'', ''/w/cases/ok.yml'']
        else if d = ''/w/suites'' then [''/w/suites/all.yml'', ''/w/suites/ok.yml'']
        else []),
      load_test_file = (\<lambda>fs p. case fs p of
          None \<Rightarrow> Inl (FileNotFound p)
        | Some content \<Rightarrow> (case map_of demo_documents p of
              None \<Rightarrow> Inl (FileFormatError p)
            | Some doc \<Rightarrow> Inr doc)),
      ensure_testcase_v3 = Inr,
      ensure_testcase_v3_api = Inr,
      load_testcase = (\<lambda>t. Inr ()),
      load_testsuite = (\<lambda>t. Inr ()),
      parse_data = (\<lambda>e p. Inr (PDict [])),
      uniform_validator = (\<lambda>v. case v of PDict d \<Rightarrow> Inr d | _ \<Rightarrow> Inl (ParamsError ''invalid validator'')),
      run_process = (\<lambda>args. Exited 0)\<rparr>"

definition demo_state :: state where
  "demo_state =
     \<lparr>make_files_cache_set = [],
      pytest_files_set = [],
      files = map_of [(''/w/demo.yml'', []), (''/w/cases/bad.yml'', []), (''/w/cases/ok.yml'', []),
                      (''/w/suites/all.yml'', []), (''/w/suites/ok.yml'', [])],
      dirs = {''/'', ''/w'', ''/w/cases'', ''/w/suites''},
      writes = [],
      logged = [],
      captured = []\<rparr>"

section \<open>Properties\<close>

subsection \<open>Paths\<close>

lemma after_last_notin: "c \<notin> set s \<Longrightarrow> after_last c s = s"
  by (induction s) auto

lemma upto_last_notin: "c \<notin> set s \<Longrightarrow> upto_last c s = []"
  by (induction s) auto

lemma after_last_append: "c \<notin> set g \<Longrightarrow> after_last c (a @ c # g) = g"
  by (induction a) (auto simp: after_last_notin)

lemma after_last_no_c: "c \<notin> set (after_last c s)"
  by (induction s) auto

lemma set_after_last: "set (after_last c s) \<subseteq> set s"
  by (induction s) auto

lemma set_upto_last: "set (upto_last c s) \<subseteq> set s"
  by (induction s) auto

lemma basename_no_slash: "CHR ''/'' \<notin> set (basename p)"
  by (simp add: basename_def after_last_no_c)

lemma basename_join: "CHR ''/'' \<notin> set g \<Longrightarrow> g \<noteq> [] \<Longrightarrow> basename (join a g) = g"
proof -
  assume g: "CHR ''/'' \<notin> set g" "g \<noteq> []"
  then have na: "\<not> isabs g" by (cases g) (auto simp: isabs_def)
  show ?thesis
  proof (cases "a = [] \<or> last a \<noteq> CHR ''/''")
    case True
    then show ?thesis using g na
      by (auto simp: join_def basename_def after_last_notin after_last_append)
  next
    case False
    then obtain a' where a: "a = a' @ [CHR ''/'']" by (metis append_butlast_last_id)
    have "after_last CHR ''/'' (a' @ CHR ''/'' # g) = g" using g by (simp add: after_last_append)
    then show ?thesis unfolding a using na by (simp add: join_def basename_def)
  qed
qed

lemma digit_facts:
  assumes "d \<in> set digits"
  shows "d \<notin> set ascii_lowercase" "d \<notin> set ascii_uppercase" "d \<noteq> CHR ''_''" "d \<noteq> CHR ''.''"
    "d \<noteq> CHR '' ''" "d \<noteq> CHR ''-''" "d \<noteq> CHR ''/''" "d \<noteq> CHR ''T''"
  using assms by (auto simp: digits_def ascii_lowercase_def ascii_uppercase_def)

lemma upto_last_butlast_prefix:
  assumes "x \<noteq> c" "upto_last c (x # xs) \<noteq> []"
  shows "\<exists>r. butlast (upto_last c (x # xs)) = x # r"
proof -
  from assms have in_xs: "c \<in> set xs" by (auto split: if_splits)
  then have "upto_last c xs \<noteq> []" by (induction xs) auto
  then show ?thesis using in_xs by simp
qed

lemma splitext_T:
  assumes "CHR ''/'' \<notin> set f" "d \<noteq> CHR ''.''" "d \<noteq> CHR ''/''"
  shows "\<exists>r. fst (splitext (CHR ''T'' # d # f)) = CHR ''T'' # d # r \<and> CHR ''/'' \<notin> set r"
proof -
  let ?b = "CHR ''T'' # d # f"
  have nos: "CHR ''/'' \<notin> set ?b" using assms by simp
  have al: "after_last CHR ''/'' ?b = ?b" by (rule after_last_notin[OF nos])
  have ul: "upto_last CHR ''/'' ?b = []" by (rule upto_last_notin[OF nos])
  show ?thesis
  proof (cases "CHR ''.'' \<in> set f")
    case True
    then have ne: "upto_last CHR ''.'' f \<noteq> []" by (induction f) auto
    have r: "upto_last CHR ''.'' ?b = CHR ''T'' # d # upto_last CHR ''.'' f" using True by simp
    have bl: "butlast (upto_last CHR ''.'' ?b) = CHR ''T'' # d # butlast (upto_last CHR ''.'' f)"
      using r ne by simp
    have sub: "set (butlast (upto_last CHR ''.'' f)) \<subseteq> set f"
      using set_upto_last[of "CHR ''.''" f] by (meson in_set_butlastD subset_iff)
    have "splitext ?b = (CHR ''T'' # d # butlast (upto_last CHR ''.'' f), CHR ''.'' # after_last CHR ''.'' ?b)"
      unfolding splitext_def Let_def al ul bl using r by simp
    then show ?thesis using sub assms by auto
  next
    case False
    then have "upto_last CHR ''.'' ?b = []" using assms by (simp add: upto_last_notin)
    then have "splitext ?b = (?b, [])" unfolding splitext_def Let_def al ul by simp
    then show ?thesis using assms by simp
  qed
qed

text \<open>
  Claim C6. For a source file path \<open>p\<close> that is not a directory and whose base name begins
  with a decimal digit \<open>d\<close>, \<^verbatim>\<open>__ensure_file_name\<close> puts the letter \<^verbatim>\<open>T\<close> in front of the
  base name, and whenever \<^verbatim>\<open>convert_testcase_path\<close> returns, the base name of the artifact
  path and the class identifier both begin with \<^verbatim>\<open>T\<close> followed by that digit.
\<close>

theorem convert_testcase_path_digit_prefix:
  assumes "\<not> isdir s p" "basename p = d # f" "d \<in> set digits"
  shows "ensure_file_name p = Inr (join (dirname p) (CHR ''T'' # d # f)) \<and>
         (\<forall>py cls. convert_testcase_path s p = Inr (py, cls) \<longrightarrow>
            (\<exists>r c. basename py = CHR ''T'' # d # r @ ''_test.py'' \<and> cls = CHR ''T'' # d # c))"
proof -
  let ?p' = "join (dirname p) (CHR ''T'' # d # f)"
  note df = digit_facts[OF assms(3)]
  have nosl: "CHR ''/'' \<notin> set f" using basename_no_slash[of p] assms(2) by simp
  have efn: "ensure_file_name p = Inr ?p'"
    using assms by (simp add: ensure_file_name_def)
  have bn: "basename ?p' = CHR ''T'' # d # f"
    using basename_join[of "CHR ''T'' # d # f" "dirname p"] nosl df by simp
  obtain r where r: "fst (splitext (CHR ''T'' # d # f)) = CHR ''T'' # d # r" "CHR ''/'' \<notin> set r"
    using splitext_T[OF nosl df(4) df(7)] by blast
  let ?fn = "replace_char CHR ''-'' CHR ''_'' (replace_char CHR ''.'' CHR ''_'' (replace_char CHR '' '' CHR ''_'' (CHR ''T'' # d # r)))"
  obtain r' where fn: "?fn = CHR ''T'' # d # r'" "CHR ''/'' \<notin> set r'"
    using df r(2) by (auto simp: replace_char_def)
  have bpy: "basename (join (dirname ?p') (?fn @ ''_test.py'')) = ?fn @ ''_test.py''"
    unfolding fn(1) by (rule basename_join) (use fn(2) df(7) in auto)
  have cls: "remove_char CHR ''_'' (title ?fn) = CHR ''T'' # d # remove_char CHR ''_'' (title_from False r')"
    unfolding fn(1) title_def using df by (simp add: remove_char_def ascii_lowercase_def ascii_uppercase_def)
  have "\<exists>r c. basename py = CHR ''T'' # d # r @ ''_test.py'' \<and> cls = CHR ''T'' # d # c"
    if "convert_testcase_path s p = Inr (py, cls)" for py cls
  proof -
    from that have "py = join (dirname ?p') (?fn @ ''_test.py'') \<and> cls = remove_char CHR ''_'' (title ?fn)"
      using assms(1) efn bn r(1)
      by (auto simp: convert_testcase_path_def ebind_def Let_def split: prod.splits if_splits)
    then show ?thesis using bpy cls fn(1) by auto
  qed
  then show ?thesis using efn by blast
qed


text \<open>
  The example of the specification: \<^verbatim>\<open>testcases/19.json\<close> gives the artifact
  \<^verbatim>\<open>testcases/T19_test.py\<close> and the class identifier \<^verbatim>\<open>T19\<close>.
\<close>

theorem convert_testcase_path_digit_prefix_witness:
  "\<not> isdir demo_state ''testcases/19.json'' \<and>
   basename ''testcases/19.json'' = CHR ''1'' # ''9.json'' \<and>
   CHR ''1'' \<in> set digits \<and>
   ensure_file_name ''testcases/19.json'' = Inr ''testcases/T19.json'' \<and>
   convert_testcase_path demo_state ''testcases/19.json'' = Inr (''testcases/T19_test.py'', ''T19'')"
proof -
  have ev: "\<not> isdir demo_state ''testcases/19.json'' \<and>
   basename ''testcases/19.json'' = CHR ''1'' # ''9.json'' \<and>
   CHR ''1'' \<in> set digits \<and>
   ensure_file_name ''testcases/19.json'' = Inr ''testcases/T19.json'' \<and>
   convert_testcase_path demo_state ''testcases/19.json'' = Inr (''testcases/T19_test.py'', ''T19'')"
    by code_simp
  show ?thesis
    using convert_testcase_path_digit_prefix [of demo_state "''testcases/19.json''" "CHR ''1''" "''9.json''"] ev
    by blast
qed

lemma splitext_T_suffix:
  assumes "CHR ''/'' \<notin> set f" "d \<noteq> CHR ''.''" "d \<noteq> CHR ''/''"
  shows "snd (splitext (CHR ''T'' # d # f)) = snd (splitext (d # f))"
proof -
  let ?b = "CHR ''T'' # d # f"
  have nos: "CHR ''/'' \<notin> set ?b" "CHR ''/'' \<notin> set (d # f)" using assms by simp_all
  note al = after_last_notin[OF nos(1)] after_last_notin[OF nos(2)]
  note ul = upto_last_notin[OF nos(1)] upto_last_notin[OF nos(2)]
  show ?thesis
  proof (cases "CHR ''.'' \<in> set f")
    case True
    then have ne: "upto_last CHR ''.'' f \<noteq> []" by (induction f) auto
    have "splitext ?b = (CHR ''T'' # d # butlast (upto_last CHR ''.'' f), CHR ''.'' # after_last CHR ''.'' f)"
      unfolding splitext_def Let_def al ul using True ne assms by simp
    moreover have "splitext (d # f) = (d # butlast (upto_last CHR ''.'' f), CHR ''.'' # after_last CHR ''.'' f)"
      unfolding splitext_def Let_def al ul using True ne assms by simp
    ultimately show ?thesis by simp
  next
    case False
    then have "upto_last CHR ''.'' ?b = []" "upto_last CHR ''.'' (d # f) = []"
      using assms by (simp_all add: upto_last_notin)
    then have "splitext ?b = (?b, [])" "splitext (d # f) = (d # f, [])"
      unfolding splitext_def Let_def al ul by simp_all
    then show ?thesis by simp
  qed
qed

text \<open>
  Claim C7 as stated fails: \<^verbatim>\<open>/w/demo.JSON\<close> is not a directory and its extension
  \<^verbatim>\<open>.JSON\<close> is none of \<^verbatim>\<open>.json\<close>, \<^verbatim>\<open>.yml\<close>, \<^verbatim>\<open>.yaml\<close>, \<^verbatim>\<open>.har\<close>, yet no \<^verbatim>\<open>ParamsError\<close> is
  raised: the suffix is lower-cased before the test (line 114).
\<close>

theorem convert_testcase_path_suffix_counterexample:
  "\<not> isdir demo_state ''/w/demo.JSON'' \<and>
   snd (splitext (basename ''/w/demo.JSON'')) \<notin> set [''.json'', ''.yml'', ''.yaml'', ''.har''] \<and>
   convert_testcase_path demo_state ''/w/demo.JSON'' = Inr (''/w/demo_test.py'', ''Demo'')"
  by code_simp

text \<open>
  Claim C7, amended. A directory path is returned unchanged with an empty identifier. For
  a path that is not a directory and has a non-empty base name, \<^verbatim>\<open>convert_testcase_path\<close>
  raises \<^verbatim>\<open>ParamsError\<close> if and only if the lower-cased extension of the base name is not
  one of \<^verbatim>\<open>.json\<close>, \<^verbatim>\<open>.yml\<close>, \<^verbatim>\<open>.yaml\<close>, \<^verbatim>\<open>.har\<close>.
\<close>

theorem convert_testcase_path_suffix:
  "(isdir s p \<longrightarrow> convert_testcase_path s p = Inr (p, [])) \<and>
   (\<not> isdir s p \<and> basename p \<noteq> [] \<longrightarrow>
      ((\<exists>m. convert_testcase_path s p = Inl (ParamsError m)) \<longleftrightarrow>
       lower (snd (splitext (basename p))) \<notin> set [''.json'', ''.yml'', ''.yaml'', ''.har'']))"
proof (intro conjI impI)
  assume "isdir s p"
  then show "convert_testcase_path s p = Inr (p, [])" by (simp add: convert_testcase_path_def)
next
  assume a: "\<not> isdir s p \<and> basename p \<noteq> []"
  then obtain d f where df: "basename p = d # f" by (cases "basename p") auto
  have nosl: "CHR ''/'' \<notin> set (d # f)" using basename_no_slash[of p] df by simp
  have "\<exists>p'. ensure_file_name p = Inr p' \<and> snd (splitext (basename p')) = snd (splitext (basename p))"
  proof (cases "d \<in> set digits")
    case True
    note dfacts = digit_facts[OF True]
    let ?p' = "join (dirname p) (CHR ''T'' # d # f)"
    have "ensure_file_name p = Inr ?p'" using df True by (simp add: ensure_file_name_def)
    moreover have "basename ?p' = CHR ''T'' # d # f"
      using basename_join[of "CHR ''T'' # d # f" "dirname p"] nosl by simp
    ultimately show ?thesis using splitext_T_suffix[of f d] nosl dfacts df by simp
  next
    case False
    then show ?thesis using df by (simp add: ensure_file_name_def)
  qed
  then obtain p' where p': "ensure_file_name p = Inr p'"
    "snd (splitext (basename p')) = snd (splitext (basename p))" by blast
  show "(\<exists>m. convert_testcase_path s p = Inl (ParamsError m)) \<longleftrightarrow>
       lower (snd (splitext (basename p))) \<notin> set [''.json'', ''.yml'', ''.yaml'', ''.har'']"
    using a p' unfolding convert_testcase_path_def
    by (cases "splitext (basename p')") (simp add: ebind_def Let_def)
qed

text \<open>
  A directory, a file with the extension \<^verbatim>\<open>.txt\<close> and a file with the extension
  \<^verbatim>\<open>.YML\<close>.
\<close>

theorem convert_testcase_path_suffix_witness:
  "isdir demo_state ''/w/cases'' \<and>
   convert_testcase_path demo_state ''/w/cases'' = Inr (''/w/cases'', []) \<and>
   \<not> isdir demo_state ''/w/demo.txt'' \<and> basename ''/w/demo.txt'' \<noteq> [] \<and>
   convert_testcase_path demo_state ''/w/demo.txt'' =
     Inl (ParamsError ''testcase file should have .yaml/.yml/.json suffix'') \<and>
   \<not> isdir demo_state ''/w/demo.YML'' \<and> basename ''/w/demo.YML'' \<noteq> [] \<and>
   convert_testcase_path demo_state ''/w/demo.YML'' = Inr (''/w/demo_test.py'', ''Demo'')"
proof -
  have ev: "isdir demo_state ''/w/cases'' \<and>
   \<not> isdir demo_state ''/w/demo.txt'' \<and> basename ''/w/demo.txt'' \<noteq> [] \<and>
   convert_testcase_path demo_state ''/w/demo.txt'' =
     Inl (ParamsError ''testcase file should have .yaml/.yml/.json suffix'') \<and>
   \<not> isdir demo_state ''/w/demo.YML'' \<and> basename ''/w/demo.YML'' \<noteq> [] \<and>
   convert_testcase_path demo_state ''/w/demo.YML'' = Inr (''/w/demo_test.py'', ''Demo'')"
    by code_simp
  show ?thesis
    using convert_testcase_path_suffix [of demo_state "''/w/cases''"]
      convert_testcase_path_suffix [of demo_state "''/w/demo.txt''"]
      convert_testcase_path_suffix [of demo_state "''/w/demo.YML''"] ev
    by blast
qed

text \<open>
  \<^verbatim>\<open>__ensure_cwd_relative\<close> gives the rest of a path that starts with the working directory
  and a separator, and leaves a relative path as it is.
\<close>

lemma ensure_cwd_relative_under_cwd:
  "isabs (getcwd env) \<Longrightarrow> ensure_cwd_relative env (getcwd env @ CHR ''/'' # r) = r"
  by (cases "getcwd env") (simp_all add: ensure_cwd_relative_def isabs_def)

lemma ensure_cwd_relative_relative:
  "\<not> isabs p \<Longrightarrow> ensure_cwd_relative env p = p"
  by (simp add: ensure_cwd_relative_def)

text \<open>
  Claim C8. The slice \<^verbatim>\<open>path[len(os.getcwd()) + 1 :]\<close> does not strip the working
  directory from every absolute path. With the working directory \<^verbatim>\<open>/\<close>, the path
  \<^verbatim>\<open>/a/b.json\<close> becomes \<^verbatim>\<open>/b.json\<close> and not \<^verbatim>\<open>a/b.json\<close>; with the working directory
  \<^verbatim>\<open>/home/u\<close>, the path \<^verbatim>\<open>/etc/t.json\<close>, which is not below it, becomes \<^verbatim>\<open>son\<close>.
\<close>

theorem ensure_cwd_relative_wrong_slice:
  "isabs ''/a/b.json'' \<and>
   ensure_cwd_relative (demo_env\<lparr>getcwd := ''/''\<rparr>) ''/a/b.json'' = ''/b.json'' \<and>
   isabs ''/etc/t.json'' \<and>
   ensure_cwd_relative (demo_env\<lparr>getcwd := ''/home/u''\<rparr>) ''/etc/t.json'' = ''son''"
  by code_simp

text \<open>
  Claim C10. On an empty list of paths \<^verbatim>\<open>main_make\<close> returns the empty list and leaves
  the whole state as it is: neither set changes, nothing is logged, so the formatter,
  which logs when it starts, is not run.
\<close>

theorem main_make_no_paths:
  "main_make depth env [] s = (Inr [], s)"
  by (simp add: main_make_def pret_def)

subsection \<open>Suite overrides and validators\<close>

lemma map_of_dict_set: "map_of (dict_set d k v) = (map_of d)(k \<mapsto> v)"
  by (induction d k v rule: dict_set.induct) auto

lemma map_of_dict_update:
  "distinct (map fst e) \<Longrightarrow> map_of (dict_update d e) = map_of d ++ map_of e"
proof (induction e arbitrary: d)
  case Nil
  then show ?case by (simp add: dict_update_def)
next
  case (Cons kv e)
  obtain k v where kv: "kv = (k, v)" by (cases kv)
  from Cons.prems kv have nk: "k \<notin> fst ` set e" and de: "distinct (map fst e)" by auto
  have "map_of (dict_update d (kv # e)) = map_of (dict_update (dict_set d k v) e)"
    by (simp add: dict_update_def kv)
  also have "\<dots> = map_of (dict_set d k v) ++ map_of e"
    by (rule Cons.IH[OF de])
  also have "\<dots> = (map_of d)(k \<mapsto> v) ++ map_of e"
    by (simp only: map_of_dict_set)
  also have "\<dots> = map_of d ++ map_of (kv # e)"
  proof
    fix x
    have "map_of e k = None" using nk by (simp add: map_of_eq_None_iff)
    then show "((map_of d)(k \<mapsto> v) ++ map_of e) x = (map_of d ++ map_of (kv # e)) x"
      by (auto simp: map_add_def kv split: option.splits)
  qed
  finally show ?case .
qed

text \<open>
  Claim C5. In the overrides of \<^verbatim>\<open>make_testsuite\<close>, the variables of the testcase config
  are updated with the variables of the reference entry first and with the variables of
  the suite after them: the merged mapping is the config's own variables, overridden by
  the entry's, overridden by the suite's. So the suite wins on a shared key and a key that
  only the entry has is kept.
\<close>

theorem override_config_variables:
  assumes "dict_get_default testcase_dict ''config'' (PDict []) = PDict c0"
    and "dict_get_default c0 ''variables'' (PDict []) = PDict base"
    and "map_of testcase ''name'' = Some name"
    and "dict_get_default testcase ''variables'' (PDict []) = PDict rv"
    and "distinct (map fst rv)" and "distinct (map fst sv)"
  shows "\<exists>td c merged.
           override_config testsuite_config (PDict sv) testcase testcase_path testcase_dict = Inr td \<and>
           map_of td ''config'' = Some (PDict c) \<and>
           map_of c ''variables'' = Some (PDict merged) \<and>
           map_of merged = map_of base ++ map_of rv ++ map_of sv"
proof -
  let ?td = "setdefault testcase_dict ''config'' (PDict [])"
  have cfg: "dict_get ?td ''config'' = PDict c0"
    using assms(1)
    by (auto simp: setdefault_def has_key_def dict_get_def dict_get_default_def map_of_dict_set
        split: option.splits)
  define c4 where "c4 =
    (let c1 = dict_set c0 ''path'' (PStr testcase_path);
         c2 = dict_set c1 ''name'' name;
         base_url = (if truthy (dict_get testsuite_config ''base_url'')
                     then dict_get testsuite_config ''base_url''
                     else dict_get testcase ''base_url'');
         c3 = (if truthy base_url then dict_set c2 ''base_url'' base_url else c2)
     in (if has_key testsuite_config ''verify''
         then dict_set c3 ''verify'' (dict_get testsuite_config ''verify'') else c3))"
  have v4: "map_of c4 ''variables'' = map_of c0 ''variables''"
    by (simp add: c4_def Let_def map_of_dict_set)
  let ?c5 = "setdefault c4 ''variables'' (PDict [])"
  have v5: "dict_get ?c5 ''variables'' = PDict base"
    using assms(2) v4
    by (auto simp: setdefault_def has_key_def dict_get_def dict_get_default_def map_of_dict_set
        split: option.splits)
  let ?m = "dict_update (dict_update base rv) sv"
  have res: "override_config testsuite_config (PDict sv) testcase testcase_path testcase_dict =
     Inr (dict_set ?td ''config'' (PDict (dict_set ?c5 ''variables'' (PDict ?m))))"
    unfolding override_config_def
    using cfg v5 assms(3,4)
    by (simp add: Let_def ebind_def as_dict_def get_item_def py_update_def c4_def)
  have "map_of ?m = map_of base ++ map_of rv ++ map_of sv"
    using assms(5,6) by (simp add: map_of_dict_update)
  then show ?thesis using res by (simp add: map_of_dict_set)
qed

text \<open>
  The example of the specification: suite variables \<^verbatim>\<open>{x: 1}\<close> and entry variables
  \<^verbatim>\<open>{x: 2, y: 3}\<close> merge to \<^verbatim>\<open>{x: 1, y: 3}\<close>.
\<close>

theorem override_config_variables_witness:
  "override_config [] (PDict [(''x'', PInt 1)])
     [(''name'', PStr ''c1''), (''testcase'', PStr ''/w/cases/ok.yml''),
      (''variables'', PDict [(''x'', PInt 2), (''y'', PInt 3)])]
     ''/w/cases/ok.yml'' ok_testcase =
   Inr [(''config'', PDict [(''name'', PStr ''c1''), (''path'', PStr ''/w/cases/ok.yml''),
          (''variables'', PDict [(''x'', PInt 1), (''y'', PInt 3)])]),
        (''teststeps'', PList [PDict [(''name'', PStr ''s1''),
          (''request'', PDict [(''method'', PStr ''GET''), (''url'', PStr ''/ok'')])]])]"
proof -
  have ev: "dict_get_default ok_testcase ''config'' (PDict []) = PDict [(''name'', PStr ''ok'')] \<and>
    dict_get_default [(''name'', PStr ''ok'')] ''variables'' (PDict []) = PDict [] \<and>
    map_of [(''name'', PStr ''c1''), (''testcase'', PStr ''/w/cases/ok.yml''),
      (''variables'', PDict [(''x'', PInt 2), (''y'', PInt 3)])] ''name'' = Some (PStr ''c1'') \<and>
    dict_get_default [(''name'', PStr ''c1''), (''testcase'', PStr ''/w/cases/ok.yml''),
      (''variables'', PDict [(''x'', PInt 2), (''y'', PInt 3)])] ''variables'' (PDict []) =
        PDict [(''x'', PInt 2), (''y'', PInt 3)] \<and>
    distinct (map fst [(''x'', PInt 2), (''y'', PInt 3)]) \<and>
    distinct (map fst [(''x'', PInt 1)])"
    by code_simp
  have res: ?thesis by code_simp
  show ?thesis
    using override_config_variables [of ok_testcase "[(''name'', PStr ''ok'')]" "[]"
        "[(''name'', PStr ''c1''), (''testcase'', PStr ''/w/cases/ok.yml''),
          (''variables'', PDict [(''x'', PInt 2), (''y'', PInt 3)])]" "PStr ''c1''"
        "[(''x'', PInt 2), (''y'', PInt 3)]" "[(''x'', PInt 1)]" "[]" "''/w/cases/ok.yml''"] ev res
    by blast
qed

text \<open>
  Claim C4. For a validator that \<^verbatim>\<open>uniform_validator\<close> normalises to an assertion method,
  a check expression (text) and an expected value, the chained call has the check
  expression between single quotes, unchanged, when it contains a double quote, and
  between double quotes otherwise; the expected value is between double quotes when it is
  text and is the text of the value (\<^verbatim>\<open>str\<close>) otherwise.
\<close>

theorem make_validator_chain_style_quoting:
  assumes "uniform_validator env v = Inr validator"
    and "map_of validator ''assert'' = Some (PStr assert_method)"
    and "map_of validator ''check'' = Some (PStr check)"
    and "map_of validator ''expect'' = Some expect"
  shows "make_validator_chain_style env v =
           Inr (''.assert_'' @ assert_method @ ''('' @
                (if dq \<in> set check then [sq] @ check @ [sq] else [dq] @ check @ [dq]) @ '', '' @
                (case expect of PStr t \<Rightarrow> [dq] @ t @ [dq] | _ \<Rightarrow> py_str expect) @ '')'')"
  using assms
  by (simp add: make_validator_chain_style_def ebind_def get_item_def contains_dq_def py_str_def
      split: pyval.splits)

text \<open>
  The example of the specification, \<^verbatim>\<open>body."user-agent"\<close>, with a number expected, and a
  check expression without a double quote, with text expected.
\<close>

theorem make_validator_chain_style_quoting_witness:
  \<open>make_validator_chain_style demo_env
     (PDict [(''check'', PStr ''body."user-agent"''), (''expect'', PInt 200), (''assert'', PStr ''equal'')]) =
     Inr (''.assert_equal('' @ [sq] @ ''body."user-agent"'' @ [sq] @ '', 200)'') \<and>
   make_validator_chain_style demo_env
     (PDict [(''check'', PStr ''status_code''), (''expect'', PStr ''OK''), (''assert'', PStr ''equal'')]) =
     Inr ''.assert_equal("status_code", "OK")''\<close>
proof -
  let ?v1 = \<open>[(''check'', PStr ''body."user-agent"''), (''expect'', PInt 200), (''assert'', PStr ''equal'')]\<close>
  let ?v2 = "[(''check'', PStr ''status_code''), (''expect'', PStr ''OK''), (''assert'', PStr ''equal'')]"
  have h1: \<open>uniform_validator demo_env (PDict ?v1) = Inr ?v1 \<and>
     map_of ?v1 ''assert'' = Some (PStr ''equal'') \<and>
     map_of ?v1 ''check'' = Some (PStr ''body."user-agent"'') \<and>
     map_of ?v1 ''expect'' = Some (PInt 200)\<close>
    by code_simp
  have h2: "uniform_validator demo_env (PDict ?v2) = Inr ?v2 \<and>
     map_of ?v2 ''assert'' = Some (PStr ''equal'') \<and>
     map_of ?v2 ''check'' = Some (PStr ''status_code'') \<and>
     map_of ?v2 ''expect'' = Some (PStr ''OK'')"
    by code_simp
  have ev: ?thesis by code_simp
  show ?thesis
    using make_validator_chain_style_quoting [of demo_env "PDict ?v1" ?v1 "''equal''" _ "PInt 200"]
      make_validator_chain_style_quoting [of demo_env "PDict ?v2" ?v2 "''equal''" "''status_code''" "PStr ''OK''"]
      h1 h2 ev
    by blast
qed

subsection \<open>The formatter\<close>

text \<open>
  What \<^verbatim>\<open>format_pytest_with_black\<close> does, for every environment: it logs that it starts;
  then it returns when the program ran, whatever its exit status, and raises the
  \<^verbatim>\<open>OSError\<close> when the program could not be started. Nothing is handed to
  \<^verbatim>\<open>capture_exception\<close> and no error is logged.
\<close>

lemma format_pytest_with_black_outcome:
  "format_pytest_with_black env python_paths s =
     (case run_process env (''black'' # python_paths) of
        Exited rc \<Rightarrow> Inr ()
      | NotStarted m \<Rightarrow> Inl (OSError m),
      s\<lparr>logged := logged s @ [(INFO, ''format pytest cases with black ...'')]\<rparr>)"
  by (simp add: format_pytest_with_black_def pbind_def logger_def subprocess_run_def pret_def
      praise_def split: proc_outcome.splits)

text \<open>
  Claim C9. \<^verbatim>\<open>main_make\<close> on \<^verbatim>\<open>demo.yml\<close> with a formatter that fails. When \<^verbatim>\<open>black\<close> cannot
  be started, \<^verbatim>\<open>main_make\<close> raises the \<^verbatim>\<open>OSError\<close> instead of returning the list of
  artifacts; when \<^verbatim>\<open>black\<close> exits with status 123, the list is returned. In both runs
  nothing is handed to \<^verbatim>\<open>capture_exception\<close> and the log holds three \<^verbatim>\<open>INFO\<close> lines and no
  error line.
\<close>

theorem main_make_formatter_failure:
  "fst (main_make 1 (demo_env\<lparr>run_process := (\<lambda>args. NotStarted ''FileNotFoundError'')\<rparr>)
          [''demo.yml''] demo_state) = Inl (OSError ''FileNotFoundError'') \<and>
   captured (snd (main_make 1 (demo_env\<lparr>run_process := (\<lambda>args. NotStarted ''FileNotFoundError'')\<rparr>)
          [''demo.yml''] demo_state)) = [] \<and>
   map fst (logged (snd (main_make 1 (demo_env\<lparr>run_process := (\<lambda>args. NotStarted ''FileNotFoundError'')\<rparr>)
          [''demo.yml''] demo_state))) = [INFO, INFO, INFO] \<and>
   fst (main_make 1 (demo_env\<lparr>run_process := (\<lambda>args. Exited 123)\<rparr>)
          [''demo.yml''] demo_state) = Inr [''demo_test.py''] \<and>
   captured (snd (main_make 1 (demo_env\<lparr>run_process := (\<lambda>args. Exited 123)\<rparr>)
          [''demo.yml''] demo_state)) = [] \<and>
   map fst (logged (snd (main_make 1 (demo_env\<lparr>run_process := (\<lambda>args. Exited 123)\<rparr>)
          [''demo.yml''] demo_state))) = [INFO, INFO, INFO]"
  by code_simp

subsection \<open>The cache of generated files\<close>

text \<open>
  The key that \<^verbatim>\<open>make_testcase\<close> adds to \<^verbatim>\<open>make_files_cache_set\<close> (line 334) is never the
  absolute artifact path that it looks up there (line 274).
\<close>

lemma ensure_cwd_relative_changes_absolute:
  "isabs p \<Longrightarrow> ensure_cwd_relative env p \<noteq> p"
proof -
  assume "isabs p"
  then have "p \<noteq> []" by (auto simp: isabs_def)
  then have "length (drop (length (getcwd env) + 1) p) < length p" by simp
  then have "drop (length (getcwd env) + 1) p \<noteq> p" by (metis less_irrefl)
  then show ?thesis using \<open>isabs p\<close> by (simp add: ensure_cwd_relative_def)
qed

text \<open>
  Claim C1. \<^verbatim>\<open>make_testcase\<close> run twice on the testcase \<^verbatim>\<open>/w/demo.yml\<close>, the second time on
  the state that the first run left. The first run writes \<^verbatim>\<open>/w/demo_test.py\<close> and caches
  \<^verbatim>\<open>demo_test.py\<close>; the second run finds no \<^verbatim>\<open>/w/demo_test.py\<close> in the cache and writes
  the file again.
\<close>

theorem make_testcase_twice_writes_twice:
  "fst (make_testcase (make 1 demo_env) demo_env demo_testcase None False demo_state) =
     Inr ''/w/demo_test.py'' \<and>
   make_files_cache_set (snd (make_testcase (make 1 demo_env) demo_env demo_testcase None False demo_state)) =
     [''demo_test.py''] \<and>
   writes (snd (make_testcase (make 1 demo_env) demo_env demo_testcase None False demo_state)) =
     [''/w/demo_test.py'', ''/w/__init__.py''] \<and>
   fst (make_testcase (make 1 demo_env) demo_env demo_testcase None False
          (snd (make_testcase (make 1 demo_env) demo_env demo_testcase None False demo_state))) =
     Inr ''/w/demo_test.py'' \<and>
   writes (snd (make_testcase (make 1 demo_env) demo_env demo_testcase None False
          (snd (make_testcase (make 1 demo_env) demo_env demo_testcase None False demo_state)))) =
     [''/w/demo_test.py'', ''/w/__init__.py'', ''/w/demo_test.py'']"
  by code_simp


text \<open>
  Inversion of the sequencing operators.
\<close>

lemma pbind_Inr_iff:
  "pbind m f s = (Inr y, s') \<longleftrightarrow> (\<exists>x s1. m s = (Inr x, s1) \<and> f x s1 = (Inr y, s'))"
  by (auto simp: pbind_def split: prod.splits sum.splits)

lemma pbind_Inl_iff:
  "pbind m f s = (Inl e, s') \<longleftrightarrow>
     m s = (Inl e, s') \<or> (\<exists>x s1. m s = (Inr x, s1) \<and> f x s1 = (Inl e, s'))"
  by (auto simp: pbind_def split: prod.splits sum.splits)

lemma plift_iff: "plift r s = (r', s') \<longleftrightarrow> r = r' \<and> s' = s"
  by (auto simp: plift_def)

lemma pret_iff: "pret x s = (r, s') \<longleftrightarrow> r = Inr x \<and> s' = s"
  by (auto simp: pret_def)

lemma logger_iff:
  "logger lvl msg s = (r, s') \<longleftrightarrow> r = Inr () \<and> s' = s\<lparr>logged := logged s @ [(lvl, msg)]\<rparr>"
  by (auto simp: logger_def)

lemma write_file_sets:
  assumes "write_file p c s = (r, s')"
  shows "make_files_cache_set s' = make_files_cache_set s \<and> pytest_files_set s' = pytest_files_set s"
  using assms by (auto simp: write_file_def split: if_splits)

lemma ensure_testcase_module_sets:
  assumes "ensure_testcase_module p s = (r, s')"
  shows "make_files_cache_set s' = make_files_cache_set s \<and> pytest_files_set s' = pytest_files_set s"
  using assms write_file_sets
  by (auto simp: ensure_testcase_module_def Let_def split: if_splits)

lemma pbind_InrE:
  assumes "pbind m f s = (Inr y, s')"
  obtains x s1 where "m s = (Inr x, s1)" "f x s1 = (Inr y, s')"
  using assms by (auto simp: pbind_Inr_iff)

text \<open>
  A run of \<^verbatim>\<open>make_testcase\<close> that returns a path not in the cache has gone through the
  loop over the references and through the serialisation of every teststep.
\<close>

lemma make_testcase_InrD:
  assumes mk: "make_testcase make_rec env tc dir ref_flag s = (Inr p, s')"
    and nc: "p \<notin> set (make_files_cache_set s)"
  shows "\<exists>tc' steps msg imports_list teststeps s1 chains.
           ensure_testcase_v3 env tc = Inr tc' \<and>
           ebind (get_item tc' ''teststeps'') py_iter = Inr steps \<and>
           make_refs make_rec env steps (s\<lparr>logged := logged s @ [(INFO, msg)]\<rparr>) =
             (Inr (imports_list, teststeps), s1) \<and>
           emap (make_teststep_chain_style env) teststeps = Inr chains \<and>
           make_files_cache_set s' =
             (if ref_flag then make_files_cache_set s1
              else set_add (ensure_cwd_relative env p) (make_files_cache_set s1)) \<and>
           pytest_files_set s' = pytest_files_set s1"
  using mk nc unfolding make_testcase_def
  apply (elim pbind_InrE)
  apply (clarsimp simp: plift_iff logger_iff Let_def split: prod.splits)
  apply (elim pbind_InrE)
  apply (clarsimp simp: plift_iff logger_iff pret_iff Let_def split: prod.splits if_splits)
  apply (elim pbind_InrE)
  apply (clarsimp simp: plift_iff logger_iff pret_iff Let_def split: prod.splits if_splits)
  apply (elim pbind_InrE)
  apply (clarsimp simp: plift_iff logger_iff pret_iff Let_def split: prod.splits if_splits)
  apply (elim pbind_InrE)
  apply (clarsimp simp: plift_iff logger_iff pret_iff Let_def split: prod.splits if_splits)
  apply (auto dest!: write_file_sets ensure_testcase_module_sets split: if_splits)
   apply fastforce+
  done



lemma emap_Inr_all:
  "emap f xs = Inr ys \<Longrightarrow> x \<in> set xs \<Longrightarrow> \<exists>y. f x = Inr y"
  by (induction xs arbitrary: ys) (auto simp: ebind_def split: sum.splits)

lemma make_refs_keeps:
  "make_refs make_rec env steps s = (Inr (imports_list, teststeps), s1) \<Longrightarrow>
   PDict step \<in> set steps \<Longrightarrow> \<not> truthy (dict_get step ''testcase'') \<Longrightarrow> step \<in> set teststeps"
proof (induction steps arbitrary: s imports_list teststeps)
  case Nil
  then show ?case by simp
next
  case (Cons a steps)
  from Cons.prems(1) obtain d where d: "a = PDict d"
    by (cases a) (auto simp: pbind_Inr_iff plift_iff as_dict_attr_def)
  show ?case
  proof (cases "truthy (dict_get d ''testcase'')")
    case False
    with Cons.prems(1) d obtain il ts s0 where
      r: "make_refs make_rec env steps s0 = (Inr (il, ts), s1)" and t: "teststeps = d # ts"
      by (auto simp: pbind_Inr_iff plift_iff pret_iff as_dict_attr_def split: prod.splits)
    show ?thesis
    proof (cases "PDict step = a")
      case True
      then show ?thesis using d t by simp
    next
      case F: False
      then have "PDict step \<in> set steps" using Cons.prems(2) by simp
      from Cons.IH[OF r this Cons.prems(3)] show ?thesis using t by simp
    qed
  next
    case True
    with Cons.prems(1) d obtain il ts s0 d' where
      r: "make_refs make_rec env steps s0 = (Inr (il, ts), s1)" and t: "teststeps = d' # ts"
      by (auto simp: pbind_Inr_iff plift_iff pret_iff as_dict_attr_def Let_def split: prod.splits)
    have "PDict step \<noteq> a" using True d Cons.prems(3) by auto
    then have "PDict step \<in> set steps" using Cons.prems(2) by simp
    from Cons.IH[OF r this Cons.prems(3)] show ?thesis using t by simp
  qed
qed

lemma make_teststep_chain_style_invalid:
  "map_of step ''request'' = None \<Longrightarrow> map_of step ''testcase'' = None \<Longrightarrow>
   make_teststep_chain_style env step =
     Inl (TestCaseFormatError (''Invalid teststep: '' @ py_repr (PDict step)))"
  by (simp add: make_teststep_chain_style_def dict_get_def ebind_def)

subsection \<open>Invalid teststeps\<close>

lemma has_key_dict_set: "has_key (dict_set d k v) k' = (k' = k \<or> has_key d k')"
  by (auto simp: has_key_def map_of_dict_set)

lemma has_key_setdefault: "has_key (setdefault d k v) k' = (k' = k \<or> has_key d k')"
  by (auto simp: setdefault_def has_key_dict_set)

lemma dict_get_setdefault:
  "dict_get (setdefault d k v) k = dict_get_default d k v"
  by (auto simp: setdefault_def has_key_def dict_get_def dict_get_default_def map_of_dict_set
      split: option.splits)

text \<open>
  A testcase with a teststep that has neither \<^verbatim>\<open>request\<close> nor \<^verbatim>\<open>testcase\<close> is never
  generated: \<^verbatim>\<open>make_testcase\<close> can only return for it when the artifact path is cached.
\<close>

lemma make_testcase_invalid_step:
  assumes "ensure_testcase_v3 env tc0 = Inr tc"
    and "map_of tc ''teststeps'' = Some (PList steps)"
    and "PDict step \<in> set steps"
    and "map_of step ''request'' = None" and "map_of step ''testcase'' = None"
    and "make_testcase make_rec env tc0 dir ref_flag s = (Inr p, s')"
  shows "p \<in> set (make_files_cache_set s)"
proof (rule ccontr)
  assume nc: "p \<notin> set (make_files_cache_set s)"
  from make_testcase_InrD[OF assms(6) nc] obtain tc' steps' msg imports_list teststeps s1 chains where
    a: "ensure_testcase_v3 env tc0 = Inr tc'"
    and b: "ebind (get_item tc' ''teststeps'') py_iter = Inr steps'"
    and c: "make_refs make_rec env steps' (s\<lparr>logged := logged s @ [(INFO, msg)]\<rparr>) =
             (Inr (imports_list, teststeps), s1)"
    and d: "emap (make_teststep_chain_style env) teststeps = Inr chains"
    by blast
  from a assms(1) have "tc' = tc" by simp
  with b assms(2) have "steps' = steps" by (simp add: ebind_def get_item_def py_iter_def)
  moreover have "\<not> truthy (dict_get step ''testcase'')" using assms(5) by (simp add: dict_get_def)
  ultimately have "step \<in> set teststeps" using make_refs_keeps[OF c] assms(3) by simp
  from emap_Inr_all[OF d this] obtain y where "make_teststep_chain_style env step = Inr y" by blast
  then show False using make_teststep_chain_style_invalid[OF assms(4,5), of env] by simp
qed

text \<open>
  The two handlers of \<^verbatim>\<open>__make\<close> (lines 426-437): a \<^verbatim>\<open>TestCaseFormatError\<close> out of
  \<^verbatim>\<open>make_testcase\<close> is caught; out of \<^verbatim>\<open>make_testsuite\<close> it is not.
\<close>

lemma make_file_catches_case_error:
  assumes "\<not> endswith (lower test_file) ''_test.py''"
    and "load_test_file env (files s) test_file = Inr content0"
    and "(if has_key content0 ''request'' then ensure_testcase_v3_api env content0 else Inr content0) = Inr content"
    and "dict_get_default content ''config'' (PDict []) = PDict c"
    and "has_key content ''teststeps''"
    and "make_testcase make_rec env
           (dict_set (setdefault content ''config'' (PDict [])) ''config''
              (PDict (dict_set c ''path'' (PStr test_file)))) None ref_flag s =
         (Inl (TestCaseFormatError m), s')"
  shows "make_file make_rec env ref_flag test_file s = (Inr (), s')"
  using assms
  by (simp add: make_file_def pbind_def pcatch_def pret_def plift_def ebind_def as_dict_def
      dict_get_setdefault has_key_dict_set has_key_setdefault)

lemma make_file_suite_case_error:
  assumes "\<not> endswith (lower test_file) ''_test.py''"
    and "load_test_file env (files s) test_file = Inr content0"
    and "(if has_key content0 ''request'' then ensure_testcase_v3_api env content0 else Inr content0) = Inr content"
    and "dict_get_default content ''config'' (PDict []) = PDict c"
    and "\<not> has_key content ''teststeps''" and "has_key content ''testcases''"
    and "make_testsuite make_rec env
           (dict_set (setdefault content ''config'' (PDict [])) ''config''
              (PDict (dict_set c ''path'' (PStr test_file)))) s =
         (Inl (TestCaseFormatError m), s')"
  shows "make_file make_rec env ref_flag test_file s = (Inl (TestCaseFormatError m), s')"
  using assms
  by (simp add: make_file_def pbind_def pcatch_def pret_def plift_def ebind_def as_dict_def
      dict_get_setdefault has_key_dict_set has_key_setdefault)

text \<open>
  Claim C3 as stated fails: \<^verbatim>\<open>__make\<close> on the folder \<^verbatim>\<open>/w/suites\<close>, whose first file is a
  testsuite that refers to a testcase with an invalid teststep, raises
  \<^verbatim>\<open>TestCaseFormatError\<close>; the second file of the folder is not generated.
\<close>

theorem make_suite_case_error_counterexample:
  "isdir demo_state ''/w/suites'' \<and>
   load_folder_files demo_env (files demo_state) ''/w/suites'' = [''/w/suites/all.yml'', ''/w/suites/ok.yml''] \<and>
   fst (make 1 demo_env ''/w/suites'' False demo_state) =
     Inl (TestCaseFormatError (''Invalid teststep: {'' @ [sq] @ ''name'' @ [sq] @ '': '' @ [sq] @ ''s1'' @ [sq] @ ''}'')) \<and>
   writes (snd (make 1 demo_env ''/w/suites'' False demo_state)) = [] \<and>
   make_files_cache_set (snd (make 1 demo_env ''/w/suites'' False demo_state)) = []"
  by code_simp

text \<open>
  The stages of \<^verbatim>\<open>make_testcase\<close> before the serialisation of the teststeps: when they
  succeed and the first teststep that fails to serialise has neither \<^verbatim>\<open>request\<close> nor
  \<^verbatim>\<open>testcase\<close>, \<^verbatim>\<open>make_testcase\<close> raises the \<^verbatim>\<open>TestCaseFormatError\<close> of that teststep.
\<close>

lemma emap_first_error:
  "emap f pre = Inr ys \<Longrightarrow> f x = Inl e \<Longrightarrow> emap f (pre @ x # post) = Inl e"
  by (induction pre arbitrary: ys) (auto simp: ebind_def split: sum.splits)

lemma convert_testcase_path_logged:
  "convert_testcase_path (s\<lparr>logged := l\<rparr>) p = convert_testcase_path s p"
  by (simp add: convert_testcase_path_def isdir_def)

lemma parse_config_variables_ok:
  assumes "\<forall>t. map_of c ''variables'' = Some (PStr t) \<longrightarrow> (\<exists>v. parse_data env t p = Inr v)"
  shows "\<exists>c'. parse_config_variables env p c = Inr c' \<and> map_of c' ''name'' = map_of c ''name'' \<and>
           map_of c' ''variables'' \<noteq> None"
proof (cases "map_of c ''variables''")
  case None
  then show ?thesis
    by (simp add: parse_config_variables_def setdefault_def has_key_def dict_get_def map_of_dict_set)
next
  case (Some v)
  show ?thesis
  proof (cases v)
    case (PStr t)
    with Some assms obtain w where "parse_data env t p = Inr w" by blast
    then show ?thesis using Some PStr
      by (simp add: parse_config_variables_def setdefault_def has_key_def dict_get_def map_of_dict_set
          ebind_def)
  qed (use Some in \<open>simp_all add: parse_config_variables_def setdefault_def has_key_def dict_get_def\<close>)
qed

lemma make_config_chain_style_ok:
  "map_of c ''name'' = Some n \<Longrightarrow> map_of c ''variables'' \<noteq> None \<Longrightarrow>
   \<exists>cc. make_config_chain_style c = Inr cc"
  by (auto simp: make_config_chain_style_def get_item_def ebind_def Let_def)

text \<open>
  Without reference steps the loop over the references changes nothing.
\<close>

lemma make_refs_no_refs:
  "\<forall>d \<in> set ds. \<not> truthy (dict_get d ''testcase'') \<Longrightarrow>
   make_refs make_rec env (map PDict ds) s = (Inr ([], ds), s)"
  by (induction ds) (simp_all add: pret_def pbind_def plift_def as_dict_attr_def)

lemma make_testcase_raises_format_error:
  assumes step: "map_of step ''request'' = None" "map_of step ''testcase'' = None"
    and v3: "ensure_testcase_v3 env tc0 = Inr tc"
    and valid: "load_testcase env tc = Inr ()"
    and config: "map_of tc ''config'' = Some (PDict config0)"
    and path: "map_of config0 ''path'' = Some path" "ensure_absolute env path = Inr testcase_path"
    and conv: "convert_testcase_path s testcase_path = Inr (py0, cls)"
    and fresh: "(case dir of None \<Rightarrow> py0 | Some d \<Rightarrow> if d = [] then py0 else join d (basename py0))
                  \<notin> set (make_files_cache_set s)"
    and vars: "\<forall>t. map_of config0 ''variables'' = Some (PStr t) \<longrightarrow> (\<exists>v. parse_data env t testcase_path = Inr v)"
    and name: "map_of config0 ''name'' = Some name"
    and steps: "ebind (get_item tc ''teststeps'') py_iter = Inr steps0"
    and refs: "make_refs make_rec env steps0
                 (s\<lparr>logged := logged s @ [(INFO, ''start to make testcase: '' @ testcase_path)]\<rparr>) =
               (Inr (imports_list, pre @ step # post), s1)"
    and pre: "emap (make_teststep_chain_style env) pre = Inr rendered"
  shows "make_testcase make_rec env tc0 dir ref_flag s =
           (Inl (TestCaseFormatError (''Invalid teststep: '' @ py_repr (PDict step))), s1)"
proof -
  let ?py = "case dir of None \<Rightarrow> py0 | Some d \<Rightarrow> if d = [] then py0 else join d (basename py0)"
  let ?c = "dict_set config0 ''path'' (PStr (ensure_cwd_relative env ?py))"
  have "\<forall>t. map_of ?c ''variables'' = Some (PStr t) \<longrightarrow> (\<exists>v. parse_data env t testcase_path = Inr v)"
    using vars by (simp add: map_of_dict_set)
  from parse_config_variables_ok[OF this] obtain c' where
    c': "parse_config_variables env testcase_path ?c = Inr c'"
      "map_of c' ''name'' = map_of ?c ''name''" "map_of c' ''variables'' \<noteq> None"
    by blast
  have "map_of c' ''name'' = Some name" using c'(2) name by (simp add: map_of_dict_set)
  from make_config_chain_style_ok[OF this c'(3)] obtain cc where cc: "make_config_chain_style c' = Inr cc"
    by blast
  have ser: "emap (make_teststep_chain_style env) (pre @ step # post) =
      Inl (TestCaseFormatError (''Invalid teststep: '' @ py_repr (PDict step)))"
    using emap_first_error[OF pre make_teststep_chain_style_invalid[OF step]] .
  have head: "ebind (get_item tc ''config'') (\<lambda>c. ebind (as_dict c) (\<lambda>config0.
              ebind (get_item config0 ''path'') (\<lambda>path. ebind (ensure_absolute env path) (\<lambda>testcase_path.
                Inr (config0, testcase_path))))) = Inr (config0, testcase_path)"
    using config path by (simp add: ebind_def get_item_def as_dict_def)
  show ?thesis
    unfolding make_testcase_def
    using v3 valid head conv fresh c'(1) steps refs cc ser
    by (simp add: pbind_def plift_def logger_def pret_def Let_def convert_testcase_path_logged)
qed

text \<open>
  The stages before the serialisation have to succeed: in a testcase with an invalid
  teststep and a reference to a file that does not exist, the loop over the references
  raises \<^verbatim>\<open>TestcaseNotFound\<close> first.
\<close>

lemma invalid_step_missing_reference:
  "fst (make_testcase (make 1 demo_env) demo_env
     [(''config'', PDict [(''name'', PStr ''both''), (''path'', PStr ''/w/both.yml'')]),
      (''teststeps'', PList [PDict [(''name'', PStr ''s1'')],
         PDict [(''name'', PStr ''s2''), (''testcase'', PStr ''/w/missing.yml'')]])]
     None False demo_state) =
   Inl (TestcaseNotFound ''Invalid tests path: /w/missing.yml'')"
  by code_simp

text \<open>
  Claim C3, amended. (1) A teststep with neither \<^verbatim>\<open>request\<close> nor \<^verbatim>\<open>testcase\<close> makes
  \<^verbatim>\<open>make_teststep_chain_style\<close> raise \<^verbatim>\<open>TestCaseFormatError\<close>. (2) Let the stages of
  \<^verbatim>\<open>make_testcase\<close> before the serialisation of that teststep succeed: the collaborators
  accept the document, the config holds a name and a path from which the artifact path is
  derived, that path is not in the cache, config variables given as an expression are
  resolved, the loop over the reference steps returns, and the teststeps before the invalid
  one serialise. Then \<^verbatim>\<open>make_testcase\<close> raises the \<^verbatim>\<open>TestCaseFormatError\<close> of that teststep
  to its caller, in the state that the loop over the reference steps left. (3) If moreover
  the document is the one that the loop of \<^verbatim>\<open>__make\<close> builds from a file with
  \<^verbatim>\<open>teststeps\<close>, the loop catches the error and goes on with the remaining files from that
  state. (4) When the file is a testsuite (it has \<^verbatim>\<open>testcases\<close> and no \<^verbatim>\<open>teststeps\<close>) and
  \<^verbatim>\<open>make_testsuite\<close> raises \<^verbatim>\<open>TestCaseFormatError\<close>, the loop raises it and the remaining
  files are left.
\<close>

theorem teststep_format_error:
  "(map_of step ''request'' = None \<and> map_of step ''testcase'' = None \<longrightarrow>
      make_teststep_chain_style env step =
        Inl (TestCaseFormatError (''Invalid teststep: '' @ py_repr (PDict step)))) \<and>
   (map_of step ''request'' = None \<and> map_of step ''testcase'' = None \<and>
    ensure_testcase_v3 env tc0 = Inr tc \<and> load_testcase env tc = Inr () \<and>
    map_of tc ''config'' = Some (PDict config0) \<and>
    map_of config0 ''path'' = Some path \<and> ensure_absolute env path = Inr testcase_path \<and>
    convert_testcase_path s testcase_path = Inr (py0, cls) \<and>
    (case dir of None \<Rightarrow> py0 | Some d \<Rightarrow> if d = [] then py0 else join d (basename py0))
      \<notin> set (make_files_cache_set s) \<and>
    (\<forall>t. map_of config0 ''variables'' = Some (PStr t) \<longrightarrow> (\<exists>v. parse_data env t testcase_path = Inr v)) \<and>
    map_of config0 ''name'' = Some name \<and>
    ebind (get_item tc ''teststeps'') py_iter = Inr steps0 \<and>
    make_refs make_rec env steps0
      (s\<lparr>logged := logged s @ [(INFO, ''start to make testcase: '' @ testcase_path)]\<rparr>) =
      (Inr (imports_list, pre @ step # post), s1) \<and>
    emap (make_teststep_chain_style env) pre = Inr rendered \<longrightarrow>
      make_testcase make_rec env tc0 dir ref_flag s =
        (Inl (TestCaseFormatError (''Invalid teststep: '' @ py_repr (PDict step))), s1) \<and>
      (\<not> endswith (lower test_file) ''_test.py'' \<and>
       load_test_file env (files s) test_file = Inr content0 \<and>
       (if has_key content0 ''request'' then ensure_testcase_v3_api env content0 else Inr content0) =
         Inr content \<and>
       dict_get_default content ''config'' (PDict []) = PDict c \<and>
       has_key content ''teststeps'' \<and>
       tc0 = dict_set (setdefault content ''config'' (PDict [])) ''config''
               (PDict (dict_set c ''path'' (PStr test_file))) \<and>
       dir = None \<longrightarrow>
         make_files make_rec env ref_flag (test_file # rest) s =
           make_files make_rec env ref_flag rest s1)) \<and>
   (\<not> endswith (lower suite_file) ''_test.py'' \<and>
    load_test_file env (files s) suite_file = Inr suite0 \<and>
    (if has_key suite0 ''request'' then ensure_testcase_v3_api env suite0 else Inr suite0) = Inr suite \<and>
    dict_get_default suite ''config'' (PDict []) = PDict sc \<and>
    \<not> has_key suite ''teststeps'' \<and> has_key suite ''testcases'' \<and>
    make_testsuite make_rec env
      (dict_set (setdefault suite ''config'' (PDict [])) ''config''
         (PDict (dict_set sc ''path'' (PStr suite_file)))) s =
      (Inl (TestCaseFormatError m), s') \<longrightarrow>
      make_files make_rec env ref_flag (suite_file # rest) s = (Inl (TestCaseFormatError m), s'))"
proof (intro conjI impI)
  assume "map_of step ''request'' = None \<and> map_of step ''testcase'' = None"
  then show "make_teststep_chain_style env step =
      Inl (TestCaseFormatError (''Invalid teststep: '' @ py_repr (PDict step)))"
    by (simp add: make_teststep_chain_style_invalid)
next
  assume h: "map_of step ''request'' = None \<and> map_of step ''testcase'' = None \<and>
    ensure_testcase_v3 env tc0 = Inr tc \<and> load_testcase env tc = Inr () \<and>
    map_of tc ''config'' = Some (PDict config0) \<and>
    map_of config0 ''path'' = Some path \<and> ensure_absolute env path = Inr testcase_path \<and>
    convert_testcase_path s testcase_path = Inr (py0, cls) \<and>
    (case dir of None \<Rightarrow> py0 | Some d \<Rightarrow> if d = [] then py0 else join d (basename py0))
      \<notin> set (make_files_cache_set s) \<and>
    (\<forall>t. map_of config0 ''variables'' = Some (PStr t) \<longrightarrow> (\<exists>v. parse_data env t testcase_path = Inr v)) \<and>
    map_of config0 ''name'' = Some name \<and>
    ebind (get_item tc ''teststeps'') py_iter = Inr steps0 \<and>
    make_refs make_rec env steps0
      (s\<lparr>logged := logged s @ [(INFO, ''start to make testcase: '' @ testcase_path)]\<rparr>) =
      (Inr (imports_list, pre @ step # post), s1) \<and>
    emap (make_teststep_chain_style env) pre = Inr rendered"
  then have mk: "make_testcase make_rec env tc0 dir ref_flag s =
        (Inl (TestCaseFormatError (''Invalid teststep: '' @ py_repr (PDict step))), s1)"
    by (intro make_testcase_raises_format_error) blast+
  then show "make_testcase make_rec env tc0 dir ref_flag s =
        (Inl (TestCaseFormatError (''Invalid teststep: '' @ py_repr (PDict step))), s1)" .
  assume f: "\<not> endswith (lower test_file) ''_test.py'' \<and>
       load_test_file env (files s) test_file = Inr content0 \<and>
       (if has_key content0 ''request'' then ensure_testcase_v3_api env content0 else Inr content0) =
         Inr content \<and>
       dict_get_default content ''config'' (PDict []) = PDict c \<and>
       has_key content ''teststeps'' \<and>
       tc0 = dict_set (setdefault content ''config'' (PDict [])) ''config''
               (PDict (dict_set c ''path'' (PStr test_file))) \<and>
       dir = None"
  then have "make_file make_rec env ref_flag test_file s = (Inr (), s1)"
    using mk make_file_catches_case_error by blast
  then show "make_files make_rec env ref_flag (test_file # rest) s =
           make_files make_rec env ref_flag rest s1"
    by (simp add: pbind_def)
next
  assume "\<not> endswith (lower suite_file) ''_test.py'' \<and>
    load_test_file env (files s) suite_file = Inr suite0 \<and>
    (if has_key suite0 ''request'' then ensure_testcase_v3_api env suite0 else Inr suite0) = Inr suite \<and>
    dict_get_default suite ''config'' (PDict []) = PDict sc \<and>
    \<not> has_key suite ''teststeps'' \<and> has_key suite ''testcases'' \<and>
    make_testsuite make_rec env
      (dict_set (setdefault suite ''config'' (PDict [])) ''config''
         (PDict (dict_set sc ''path'' (PStr suite_file)))) s =
      (Inl (TestCaseFormatError m), s')"
  then have "make_file make_rec env ref_flag suite_file s = (Inl (TestCaseFormatError m), s')"
    using make_file_suite_case_error by blast
  then show "make_files make_rec env ref_flag (suite_file # rest) s = (Inl (TestCaseFormatError m), s')"
    by (simp add: pbind_def)
qed

text \<open>
  The folder \<^verbatim>\<open>/w/cases\<close>, where \<^verbatim>\<open>bad.yml\<close> is skipped with nothing but a log line and
  \<^verbatim>\<open>ok.yml\<close> is generated, and the folder \<^verbatim>\<open>/w/suites\<close>, where the error of \<^verbatim>\<open>bad.yml\<close>
  comes through the testsuite.
\<close>

theorem teststep_format_error_witness:
  "make_teststep_chain_style demo_env [(''name'', PStr ''s1'')] =
     Inl (TestCaseFormatError (''Invalid teststep: '' @ py_repr (PDict [(''name'', PStr ''s1'')]))) \<and>
   make_testcase (make 0 demo_env) demo_env
     (dict_set (setdefault bad_testcase ''config'' (PDict [])) ''config''
        (PDict (dict_set [(''name'', PStr ''bad'')] ''path'' (PStr ''/w/cases/bad.yml''))))
     None False demo_state =
     (Inl (TestCaseFormatError (''Invalid teststep: '' @ py_repr (PDict [(''name'', PStr ''s1'')]))),
      demo_state\<lparr>logged := logged demo_state @
        [(INFO, ''start to make testcase: '' @ ''/w/cases/bad.yml'')]\<rparr>) \<and>
   make_files (make 0 demo_env) demo_env False [''/w/cases/bad.yml'', ''/w/cases/ok.yml''] demo_state =
     make_files (make 0 demo_env) demo_env False [''/w/cases/ok.yml'']
       (demo_state\<lparr>logged := logged demo_state @
          [(INFO, ''start to make testcase: '' @ ''/w/cases/bad.yml'')]\<rparr>) \<and>
   fst (make_files (make 0 demo_env) demo_env False [''/w/cases/bad.yml'', ''/w/cases/ok.yml''] demo_state) =
     Inr () \<and>
   writes (snd (make_files (make 0 demo_env) demo_env False
       [''/w/cases/bad.yml'', ''/w/cases/ok.yml''] demo_state)) =
     [''/w/cases/ok_test.py'', ''/w/cases/__init__.py''] \<and>
   make_files (make 0 demo_env) demo_env False [''/w/suites/all.yml'', ''/w/suites/ok.yml''] demo_state =
     (Inl (TestCaseFormatError (''Invalid teststep: '' @ py_repr (PDict [(''name'', PStr ''s1'')]))),
      snd (make_testsuite (make 0 demo_env) demo_env
          (dict_set (setdefault all_testsuite ''config'' (PDict [])) ''config''
             (PDict (dict_set [(''name'', PStr ''all'')] ''path'' (PStr ''/w/suites/all.yml'')))) demo_state))"
proof -
  let ?step = "[(''name'', PStr ''s1'')]"
  let ?m = "''Invalid teststep: '' @ py_repr (PDict ?step)"
  let ?config0 = "dict_set [(''name'', PStr ''bad'')] ''path'' (PStr ''/w/cases/bad.yml'')"
  let ?bad = "dict_set (setdefault bad_testcase ''config'' (PDict [])) ''config'' (PDict ?config0)"
  let ?suite = "dict_set (setdefault all_testsuite ''config'' (PDict [])) ''config''
        (PDict (dict_set [(''name'', PStr ''all'')] ''path'' (PStr ''/w/suites/all.yml'')))"
  let ?s1 = "demo_state\<lparr>logged := logged demo_state @
        [(INFO, ''start to make testcase: '' @ ''/w/cases/bad.yml'')]\<rparr>"
  let ?ms = "make_testsuite (make 0 demo_env) demo_env ?suite demo_state"
  have step: "map_of ?step ''request'' = None \<and> map_of ?step ''testcase'' = None"
    by code_simp
  have doc: "ensure_testcase_v3 demo_env ?bad = Inr ?bad \<and> load_testcase demo_env ?bad = Inr () \<and>
      map_of ?bad ''config'' = Some (PDict ?config0) \<and>
      map_of ?config0 ''path'' = Some (PStr ''/w/cases/bad.yml'') \<and>
      ensure_absolute demo_env (PStr ''/w/cases/bad.yml'') = Inr ''/w/cases/bad.yml'' \<and>
      convert_testcase_path demo_state ''/w/cases/bad.yml'' = Inr (''/w/cases/bad_test.py'', ''Bad'') \<and>
      (case None of None \<Rightarrow> ''/w/cases/bad_test.py''
       | Some d \<Rightarrow> if d = [] then ''/w/cases/bad_test.py'' else join d (basename ''/w/cases/bad_test.py''))
        \<notin> set (make_files_cache_set demo_state) \<and>
      map_of ?config0 ''name'' = Some (PStr ''bad'') \<and>
      ebind (get_item ?bad ''teststeps'') py_iter = Inr [PDict ?step] \<and>
      emap (make_teststep_chain_style demo_env) [] = Inr []"
    by code_simp
  have novars: "map_of ?config0 ''variables'' = None"
    by code_simp
  then have vars: "\<forall>t. map_of ?config0 ''variables'' = Some (PStr t) \<longrightarrow>
      (\<exists>v. parse_data demo_env t ''/w/cases/bad.yml'' = Inr v)"
    by simp
  have "\<forall>d \<in> set [?step]. \<not> truthy (dict_get d ''testcase'')"
    by (simp add: dict_get_def)
  from make_refs_no_refs[OF this, of "make 0 demo_env" demo_env ?s1]
  have refs: "make_refs (make 0 demo_env) demo_env [PDict ?step] ?s1 = (Inr ([], [] @ ?step # []), ?s1)"
    by simp
  have file1: "\<not> endswith (lower ''/w/cases/bad.yml'') ''_test.py'' \<and>
      load_test_file demo_env (files demo_state) ''/w/cases/bad.yml'' = Inr bad_testcase \<and>
      (if has_key bad_testcase ''request'' then ensure_testcase_v3_api demo_env bad_testcase
       else Inr bad_testcase) = Inr bad_testcase \<and>
      dict_get_default bad_testcase ''config'' (PDict []) = PDict [(''name'', PStr ''bad'')] \<and>
      has_key bad_testcase ''teststeps''"
    by code_simp
  have file2: "\<not> endswith (lower ''/w/suites/all.yml'') ''_test.py'' \<and>
      load_test_file demo_env (files demo_state) ''/w/suites/all.yml'' = Inr all_testsuite \<and>
      (if has_key all_testsuite ''request'' then ensure_testcase_v3_api demo_env all_testsuite
       else Inr all_testsuite) = Inr all_testsuite \<and>
      dict_get_default all_testsuite ''config'' (PDict []) = PDict [(''name'', PStr ''all'')] \<and>
      \<not> has_key all_testsuite ''teststeps'' \<and> has_key all_testsuite ''testcases''"
    by code_simp
  have ev: "fst ?ms = Inl (TestCaseFormatError ?m) \<and>
      fst (make_files (make 0 demo_env) demo_env False [''/w/cases/bad.yml'', ''/w/cases/ok.yml''] demo_state) =
        Inr () \<and>
      writes (snd (make_files (make 0 demo_env) demo_env False
        [''/w/cases/bad.yml'', ''/w/cases/ok.yml''] demo_state)) =
        [''/w/cases/ok_test.py'', ''/w/cases/__init__.py'']"
    by code_simp
  then have ms: "?ms = (Inl (TestCaseFormatError ?m), snd ?ms)"
    by (metis prod.collapse)
  note t = teststep_format_error [where step = ?step and env = demo_env and ?tc0.0 = ?bad and tc = ?bad
      and ?config0.0 = ?config0 and path = "PStr ''/w/cases/bad.yml''"
      and testcase_path = "''/w/cases/bad.yml''" and s = demo_state
      and ?py0.0 = "''/w/cases/bad_test.py''" and cls = "''Bad''" and dir = None
      and name = "PStr ''bad''" and ?steps0.0 = "[PDict ?step]" and make_rec = "make 0 demo_env"
      and imports_list = "[]" and pre = "[]" and post = "[]" and ?s1.0 = ?s1 and rendered = "[]"
      and ref_flag = False and test_file = "''/w/cases/bad.yml''" and ?content0.0 = bad_testcase
      and content = bad_testcase and c = "[(''name'', PStr ''bad'')]" and rest = "[''/w/cases/ok.yml'']"
      and suite_file = "''/w/suites/all.yml''" and ?suite0.0 = all_testsuite and suite = all_testsuite
      and sc = "[(''name'', PStr ''all'')]" and m = ?m and s' = "snd ?ms"]
  from t step have a: "make_teststep_chain_style demo_env ?step = Inl (TestCaseFormatError ?m)"
    by blast
  from t step doc vars refs have b: "make_testcase (make 0 demo_env) demo_env ?bad None False demo_state =
      (Inl (TestCaseFormatError ?m), ?s1)"
    by blast
  from t step doc vars refs file1 have c: "make_files (make 0 demo_env) demo_env False
      (''/w/cases/bad.yml'' # [''/w/cases/ok.yml'']) demo_state =
      make_files (make 0 demo_env) demo_env False [''/w/cases/ok.yml''] ?s1"
    by blast
  note t2 = teststep_format_error [where env = demo_env and s = demo_state
      and make_rec = "make 0 demo_env" and ref_flag = False and rest = "[''/w/suites/ok.yml'']"
      and suite_file = "''/w/suites/all.yml''" and ?suite0.0 = all_testsuite and suite = all_testsuite
      and sc = "[(''name'', PStr ''all'')]" and m = ?m and s' = "snd ?ms"]
  from t2 file2 ms have d: "make_files (make 0 demo_env) demo_env False
      (''/w/suites/all.yml'' # [''/w/suites/ok.yml'']) demo_state = (Inl (TestCaseFormatError ?m), snd ?ms)"
    by blast
  show ?thesis using a b c d ev by blast
qed

end
